theory Spec2Isabelle
  imports Complex_Main "HOL-Library.Log_Nat" "HOL-Library.Product_Lexorder" "HOL-Library.Sublist"
begin

section \<open>Tamil Nadu staff payroll: the simulation engine of payrollService.ts\<close>

text \<open>
  This theory embeds \<^verbatim>\<open>src/services/payrollService.ts\<close>. The file
  \<^verbatim>\<open>constants.ts\<close> with the reference tables is not part of the sources, so every table
  is a field of the record \<open>tables\<close> and every function that reads a table takes it as
  its first argument.

  Conventions of the embedding:
  \<^item> money and rates are whole numbers (\<open>int\<close>); the products the code rounds with
    \<^verbatim>\<open>Math.round\<close> are computed as the binary64 arithmetic of the language computes them
    (\<open>fl\<close> below), because \<^verbatim>\<open>x * 2.57\<close> is not the exact product;
  \<^item> a \<^verbatim>\<open>Date\<close> at UTC midnight is a calendar date, held as the pair of the month count
    \<open>12 * year + month\<close> (month from 0, as \<^verbatim>\<open>getUTCMonth\<close> counts) and the day of the month;
    dates are compared as the time values are (lexicographically);
  \<^item> an optional or possibly empty date string is a \<open>date option\<close>; a string field that the
    code only tests for emptiness holds \<open>''''\<close> when absent;
  \<^item> a \<^verbatim>\<open>throw\<close> is \<open>Some (Inl e)\<close>, a normal return \<open>Some (Inr x)\<close>, and \<open>None\<close> is a
    call that does not return (the \<^verbatim>\<open>while\<close> loop of \<^verbatim>\<open>findNextHigherStageInScale\<close>
    runs forever on a scale whose increment is not positive);
  \<^item> remark strings are kept as tagged values carrying the data the code prints.
\<close>

subsection \<open>Dates\<close>

type_synonym date = "int \<times> int"

text \<open>\<open>mkDate y m d\<close> is the date \<^verbatim>\<open>parseDateUTC\<close> returns for \<^verbatim>\<open>'y-m-d'\<close> (month from 1).\<close>

definition mkDate :: "int \<Rightarrow> int \<Rightarrow> int \<Rightarrow> date" where
  "mkDate y m d = (12 * y + (m - 1), d)"

definition getUTCFullYear :: "date \<Rightarrow> int" where
  "getUTCFullYear d = fst d div 12"

definition getUTCMonth :: "date \<Rightarrow> int" where
  "getUTCMonth d = fst d mod 12"

definition getUTCDate :: "date \<Rightarrow> int" where
  "getUTCDate d = snd d"

definition leap_year :: "int \<Rightarrow> bool" where
  "leap_year y = (y mod 4 = 0 \<and> (y mod 100 \<noteq> 0 \<or> y mod 400 = 0))"

definition days_in_month :: "int \<Rightarrow> int" where
  "days_in_month mi =
     (let m = mi mod 12
      in if m = 1 then (if leap_year (mi div 12) then 29 else 28)
         else if m = 3 \<or> m = 5 \<or> m = 8 \<or> m = 10 then 30 else 31)"

lemma days_in_month_pos: "0 < days_in_month mi"
  by (simp add: days_in_month_def Let_def)

text \<open>
  The date of day \<open>d\<close> counted from the first of month \<open>mi\<close>, as the language's
  \<^verbatim>\<open>MakeDay\<close> carries a day past the end of a month into the following months. The code
  never passes a day below 1.
\<close>

function MakeDate :: "int \<Rightarrow> int \<Rightarrow> date" where
  "MakeDate mi d =
     (if days_in_month mi < d then MakeDate (mi + 1) (d - days_in_month mi) else (mi, d))"
  by pat_completeness auto
termination
proof (relation "measure (\<lambda>(mi, d). nat d)")
  show "wf (measure (\<lambda>(mi, d). nat d))" by simp
next
  fix mi d :: int
  assume "days_in_month mi < d"
  with days_in_month_pos [of mi]
  show "((mi + 1, d - days_in_month mi), (mi, d)) \<in> measure (\<lambda>(mi, d). nat d)"
    by simp
qed

declare MakeDate.simps [simp del]

definition Date_UTC :: "int \<Rightarrow> int \<Rightarrow> int \<Rightarrow> date" where
  "Date_UTC y m d = MakeDate (12 * y + m) d"

definition setUTCMonth :: "date \<Rightarrow> int \<Rightarrow> date" where
  "setUTCMonth dt m = MakeDate (12 * getUTCFullYear dt + m) (getUTCDate dt)"

definition setUTCFullYear :: "date \<Rightarrow> int \<Rightarrow> date" where
  "setUTCFullYear dt y = MakeDate (12 * y + getUTCMonth dt) (getUTCDate dt)"

definition setUTCDate :: "date \<Rightarrow> int \<Rightarrow> date" where
  "setUTCDate dt d = MakeDate (fst dt) d"

text \<open>Days since 1 January 1970: \<^verbatim>\<open>getTime()\<close> divided by the milliseconds of a day.\<close>

definition day_number :: "date \<Rightarrow> int" where
  "day_number dt =
     (let k = fst dt - 2; y = k div 12; mp = k mod 12
      in 365 * y + y div 4 - y div 100 + y div 400 + (153 * mp + 2) div 5 + snd dt - 1 - 719468)"

subsection \<open>Numbers: binary64 products and \<^verbatim>\<open>Math.round\<close>\<close>

text \<open>
  \<open>fl q\<close> is the binary64 number nearest to \<open>q\<close> (ties to the even significand), for
  \<open>q\<close> in the normal range; all amounts of a payroll are. \<open>Math_round\<close> rounds to the
  nearest integer, a half towards plus infinity.
\<close>

definition ilog2 :: "rat \<Rightarrow> int" where
  "ilog2 q = (if 1 \<le> q then bitlen \<lfloor>q\<rfloor> - 1 else - bitlen (\<lceil>1 / q\<rceil> - 1))"

definition pow2 :: "int \<Rightarrow> rat" where
  "pow2 e = (if 0 \<le> e then 2 ^ nat e else 1 / 2 ^ nat (- e))"

definition round_half_even :: "rat \<Rightarrow> int" where
  "round_half_even q =
     (let f = \<lfloor>q\<rfloor>; r = q - of_int f
      in if r < 1 / 2 then f else if 1 / 2 < r then f + 1 else if even f then f else f + 1)"

definition fl :: "rat \<Rightarrow> rat" where
  "fl q = (if q = 0 then 0
           else let u = pow2 (ilog2 \<bar>q\<bar> - 52) in of_int (round_half_even (q / u)) * u)"

definition Math_round :: "rat \<Rightarrow> int" where
  "Math_round q = \<lfloor>q + 1 / 2\<rfloor>"

definition FITMENT_FACTOR_7TH_PC :: rat where
  "FITMENT_FACTOR_7TH_PC = fl (257 / 100)"

definition FITMENT_MULTIPLIER_6TH_PC_TN :: rat where
  "FITMENT_MULTIPLIER_6TH_PC_TN = fl (186 / 100)"

text \<open>\<^verbatim>\<open>Math.round(x * c)\<close> for a whole \<open>x\<close> and a binary64 \<open>c\<close>.\<close>

definition round_times :: "int \<Rightarrow> rat \<Rightarrow> int" where
  "round_times x c = Math_round (fl (of_int x * c))"

text \<open>\<^verbatim>\<open>Math.round(x * (r / 100))\<close>: the quotient is rounded to binary64 first.\<close>

definition round_percent :: "int \<Rightarrow> int \<Rightarrow> int" where
  "round_percent x r = round_times x (fl (of_int r / 100))"

subsection \<open>Strings: \<^verbatim>\<open>parseInt\<close> and the scale parser\<close>

definition is_digit :: "char \<Rightarrow> bool" where
  "is_digit c = (48 \<le> (of_char c :: nat) \<and> (of_char c :: nat) \<le> 57)"

definition is_space :: "char \<Rightarrow> bool" where
  "is_space c = ((of_char c :: nat) = 32 \<or> (9 \<le> (of_char c :: nat) \<and> (of_char c :: nat) \<le> 13))"

definition digits_value :: "string \<Rightarrow> int" where
  "digits_value ds = foldl (\<lambda>a c. 10 * a + (int (of_char c) - 48)) 0 ds"

text \<open>\<^verbatim>\<open>parseInt(s, 10)\<close>; \<open>None\<close> is NaN.\<close>

definition parseInt10 :: "string \<Rightarrow> int option" where
  "parseInt10 s =
     (let s1 = dropWhile is_space s;
          neg = (s1 \<noteq> [] \<and> hd s1 = CHR ''-'');
          s2 = (if s1 \<noteq> [] \<and> (hd s1 = CHR ''-'' \<or> hd s1 = CHR ''+'') then tl s1 else s1);
          ds = takeWhile is_digit s2
      in if ds = [] then None
         else Some (if neg then - digits_value ds else digits_value ds))"

text \<open>\<^verbatim>\<open>s.split('-')\<close>: always at least one part.\<close>

fun split_dash :: "string \<Rightarrow> string list" where
  "split_dash [] = [[]]"
| "split_dash (c # cs) =
     (if c = CHR ''-'' then [] # split_dash cs
      else (case split_dash cs of [] \<Rightarrow> [[c]] | p # ps \<Rightarrow> (c # p) # ps))"

text \<open>
  \<^verbatim>\<open>Number(part)\<close> for the parts of a scale string: the empty part is 0, a run of decimal
  digits is its value, and any other part is taken as NaN (\<open>None\<close>). The scale strings of
  the tables are decimal amounts separated by dashes; the other forms that \<^verbatim>\<open>Number\<close>
  reads as a number (an exponent, a sign, a hexadecimal literal) are not modelled.
\<close>

definition Number_part :: "string \<Rightarrow> int option" where
  "Number_part p = (if list_all is_digit p then Some (digits_value p) else None)"

record stage =
  st_from :: int
  st_to :: int
  st_inc :: int

record parsed_scale =
  stages :: "stage list"
  scale_max :: int
  scale_start :: int

fun stages_of :: "int list \<Rightarrow> stage list" where
  "stages_of (a # b # c # rest) =
     \<lparr>st_from = a, st_to = c, st_inc = b\<rparr> # stages_of (c # rest)"
| "stages_of _ = []"

definition parseScale :: "string \<Rightarrow> parsed_scale" where
  "parseScale scale =
     (let parts = map Number_part (split_dash (filter (\<lambda>c. \<not> is_space c) scale))
      in if list_ex (\<lambda>p. p = None) parts then \<lparr>stages = [], scale_max = 0, scale_start = 0\<rparr>
         else let ns = map the parts
              in \<lparr>stages = stages_of ns, scale_max = last ns, scale_start = hd ns\<rparr>)"

text \<open>
  The increment the inner \<^verbatim>\<open>for\<close> loop adds at \<open>pay\<close>: that of the first stage whose
  \<open>to\<close> is above \<open>pay\<close>, else that of the last stage (callers have checked that there is
  a stage).
\<close>

definition inc_at :: "stage list \<Rightarrow> int \<Rightarrow> int" where
  "inc_at sts pay =
     (case find (\<lambda>st. pay < st_to st) sts of
        Some st \<Rightarrow> st_inc st
      | None \<Rightarrow> st_inc (last sts))"

partial_function (option) next_higher_loop :: "stage list \<Rightarrow> int \<Rightarrow> int \<Rightarrow> int \<Rightarrow> int option" where
  "next_higher_loop sts mx currentPay pay =
     (if pay \<le> currentPay \<and> pay < mx
      then next_higher_loop sts mx currentPay (pay + inc_at sts pay)
      else Some pay)"

declare next_higher_loop.simps [code]

definition findNextHigherStageInScale :: "int \<Rightarrow> string \<Rightarrow> int option" where
  "findNextHigherStageInScale currentPay newScaleString =
     (let scale = parseScale newScaleString
      in if stages scale = [] then Some currentPay
         else if scale_max scale \<le> currentPay then Some (scale_max scale)
         else if currentPay < scale_start scale then Some (scale_start scale)
         else map_option (\<lambda>pay. min pay (scale_max scale))
                (next_higher_loop (stages scale) (scale_max scale) currentPay (scale_start scale)))"

fun scale_steps :: "stage list \<Rightarrow> int \<Rightarrow> nat \<Rightarrow> int \<Rightarrow> int" where
  "scale_steps sts mx 0 newPay = newPay"
| "scale_steps sts mx (Suc n) newPay =
     (if mx \<le> newPay then mx
      else let p = newPay + inc_at sts newPay
           in scale_steps sts mx n (if mx < p then mx else p))"

definition getIncrementInScale :: "int \<Rightarrow> string \<Rightarrow> nat \<Rightarrow> int" where
  "getIncrementInScale currentPay scaleString steps =
     (let scale = parseScale scaleString
      in if stages scale = [] then currentPay
         else scale_steps (stages scale) (scale_max scale) steps currentPay)"

subsection \<open>Reference tables (parameters)\<close>

datatype CityClass = ClassA | ClassB | ClassC

record DARate =
  da_date :: date
  da_commission :: nat
  da_rate :: int

record HraSlab =
  payRange :: "int \<times> int"
  rates :: "string \<Rightarrow> int option"

record PayScale =
  ps_id :: string
  ps_scale :: string
  ps_gradePay :: int

record PayScaleOld =
  sc_id :: string
  sc_scale :: string

record PayRevision2010 =
  rev_postId :: string
  rev_description :: string

record GradeMapping =
  selection :: string
  special :: string

record PayBandLimits =
  pb_min :: int
  pb_max :: int

record tables =
  PAY_MATRIX :: "int \<Rightarrow> int list option"
  GRADE_PAY_TO_LEVEL :: "int \<Rightarrow> int option"
  DA_RATES :: "DARate list"
  HRA_SLABS_7TH_PC :: "HraSlab list"
  HRA_SLABS_6TH_PC :: "HraSlab list"
  HRA_SLABS_6TH_PC_PRE_2009 :: "HraSlab list"
  HRA_SLABS_5TH_PC :: "HraSlab list"
  HRA_SLABS_4TH_PC :: "HraSlab list"
  HRA_SLABS_3RD_PC :: "HraSlab list"
  PAY_SCALES_6TH_PC :: "PayScale list"
  PAY_SCALES_5TH_PC :: "PayScaleOld list"
  PAY_SCALES_4TH_PC :: "PayScaleOld list"
  PAY_SCALES_3RD_PC :: "PayScaleOld list"
  PAY_REVISIONS_2010 :: "PayRevision2010 list"
  CCA_RATES :: "CityClass \<Rightarrow> int option"
  FIFTH_PC_SG_SP_GRADE_MAPPING :: "string \<Rightarrow> GradeMapping option"
  PAY_BAND_LIMITS_6TH_PC :: "int \<Rightarrow> PayBandLimits option"

subsection \<open>Errors and results\<close>

text \<open>
  One constructor for each \<^verbatim>\<open>throw\<close> of the file, \<open>TypeError\<close> for a property read of
  \<^verbatim>\<open>undefined\<close>, and \<open>UndefinedPay\<close> for the one place where the code would go on with
  an undefined pay (an empty row of the pay matrix), which the embedding does not follow.
\<close>

datatype error =
    MissingRequiredFields
  | Before1980
  | MissingJoiningPay nat
  | InvalidScaleId nat string
  | MissingLevel
  | CouldNotMapScale nat "string option"
  | NoLevelForGradePay "int option"
  | InvalidLevel int
  | InvalidLevelForIncrement int
  | GradePayRequired
  | InvalidCommission nat
  | InvalidLevelForPromotion string
  | InvalidGradePayForPromotion "int option"
  | TypeError
  | UndefinedPay

type_synonym 'a res = "(error + 'a) option"

definition ok :: "'a \<Rightarrow> 'a res" where
  "ok x = Some (Inr x)"

definition throw :: "error \<Rightarrow> 'a res" where
  "throw e = Some (Inl e)"

definition bnd :: "'a res \<Rightarrow> ('a \<Rightarrow> 'b res) \<Rightarrow> 'b res" where
  "bnd m f = (case m of None \<Rightarrow> None | Some (Inl e) \<Rightarrow> Some (Inl e) | Some (Inr x) \<Rightarrow> f x)"

text \<open>\<^verbatim>\<open>a || b\<close> on numbers: \<^verbatim>\<open>undefined\<close> and 0 are falsy.\<close>

definition or_num :: "int option \<Rightarrow> int \<Rightarrow> int" where
  "or_num a b = (case a of Some v \<Rightarrow> (if v \<noteq> 0 then v else b) | None \<Rightarrow> b)"

subsection \<open>Pay calculation helpers\<close>

definition mapCityClassToGrade :: "CityClass \<Rightarrow> string" where
  "mapCityClassToGrade c =
     (case c of ClassA \<Rightarrow> ''Grade I(a)'' | ClassB \<Rightarrow> ''Grade I(b)'' | ClassC \<Rightarrow> ''Grade II'')"

text \<open>
  \<^verbatim>\<open>findPayInMatrix\<close>. For an empty row of the pay matrix the code returns
  \<^verbatim>\<open>undefined\<close> as the pay and goes on with it; the model stops there with
  \<open>UndefinedPay\<close> (here, at the joining pay of a level and at a promotion), so a result
  that the model returns never went through an empty row.
\<close>

definition findPayInMatrix :: "tables \<Rightarrow> int \<Rightarrow> int \<Rightarrow> int res" where
  "findPayInMatrix T pay level =
     (case PAY_MATRIX T level of
        None \<Rightarrow> throw (InvalidLevel level)
      | Some levelPayScale \<Rightarrow>
          (case find (\<lambda>p. pay \<le> p) levelPayScale of
             Some newPay \<Rightarrow>
               if newPay \<noteq> 0 then ok newPay
               else if levelPayScale = [] then throw UndefinedPay else ok (last levelPayScale)
           | None \<Rightarrow> if levelPayScale = [] then throw UndefinedPay else ok (last levelPayScale)))"

fun findIndex :: "('a \<Rightarrow> bool) \<Rightarrow> 'a list \<Rightarrow> nat option" where
  "findIndex P [] = None"
| "findIndex P (x # xs) = (if P x then Some 0 else map_option Suc (findIndex P xs))"

text \<open>The \<^verbatim>\<open>for\<close> loop of the 6th-commission branch of \<^verbatim>\<open>getIncrement\<close>.\<close>

fun pipb_steps :: "PayBandLimits option \<Rightarrow> int \<Rightarrow> nat \<Rightarrow> int \<Rightarrow> int" where
  "pipb_steps band gp 0 payInPayBand = payInPayBand"
| "pipb_steps band gp (Suc n) payInPayBand =
     (if (case band of Some l \<Rightarrow> pb_max l \<le> payInPayBand | None \<Rightarrow> False) then payInPayBand
      else pipb_steps band gp n
             (payInPayBand + round_times (payInPayBand + gp) (fl (3 / 100))))"

text \<open>
  \<^verbatim>\<open>getIncrement\<close> returns \<open>(newPay, newPipb)\<close>. It is called with 1 or 2 steps only.
\<close>

definition getIncrement ::
  "tables \<Rightarrow> int \<Rightarrow> int \<Rightarrow> nat \<Rightarrow> nat \<Rightarrow> int option \<Rightarrow> (int \<times> int option) res" where
  "getIncrement T currentPay level steps commission gradePay =
     (if commission = 7 then
        (case PAY_MATRIX T level of
           None \<Rightarrow> throw (InvalidLevelForIncrement level)
         | Some levelPayScale \<Rightarrow>
             (case findIndex (\<lambda>p. p = currentPay) levelPayScale of
                None \<Rightarrow>
                  (case findIndex (\<lambda>p. currentPay < p) levelPayScale of
                     None \<Rightarrow> ok (currentPay, None)
                   | Some nextStepIndex \<Rightarrow>
                       ok (levelPayScale ! min (nextStepIndex + steps - 1) (length levelPayScale - 1), None))
              | Some currentIndex \<Rightarrow>
                  ok (levelPayScale ! min (currentIndex + steps) (length levelPayScale - 1), None)))
      else if commission = 6 then
        (case gradePay of
           None \<Rightarrow> throw GradePayRequired
         | Some gp \<Rightarrow>
             let payBandLimits = PAY_BAND_LIMITS_6TH_PC T gp;
                 p = pipb_steps payBandLimits gp steps (currentPay - gp);
                 payInPayBand =
                   (case payBandLimits of
                      Some l \<Rightarrow> if pb_max l < p then pb_max l else p
                    | None \<Rightarrow> p)
             in ok (payInPayBand + gp, Some payInPayBand))
      else throw (InvalidCommission commission))"

definition getHra :: "tables \<Rightarrow> int \<Rightarrow> string \<Rightarrow> date \<Rightarrow> int" where
  "getHra T basicPay cityGrade dt =
     (let slabs =
            (if mkDate 2016 1 1 \<le> dt then HRA_SLABS_7TH_PC T
             else if mkDate 2006 1 1 \<le> dt then
               (if dt < mkDate 2009 6 1 then HRA_SLABS_6TH_PC_PRE_2009 T else HRA_SLABS_6TH_PC T)
             else if mkDate 1996 1 1 \<le> dt then HRA_SLABS_5TH_PC T
             else if mkDate 1986 1 1 \<le> dt then HRA_SLABS_4TH_PC T
             else HRA_SLABS_3RD_PC T)
      in case find (\<lambda>s. fst (payRange s) \<le> basicPay \<and> basicPay \<le> snd (payRange s)) slabs of
           None \<Rightarrow> 0
         | Some slab \<Rightarrow> or_num (rates slab cityGrade) (or_num (rates slab ''Unclassified'') 0))"

subsection \<open>Probation and test rules\<close>

datatype ProbationPeriodType = OneYear | TwoYears | Custom

datatype TestStatus = NotAppeared | Pending | Passed | Failed | Exempted

datatype elig_remark =
    ProbationTerminated
  | NormalRules
  | NoTestRequirement
  | FirstSanctioned date
  | FirstWithheld
  | AfterFirst nat
  | FirstOfTwoYears
  | SecondSanctioned date
  | SecondWithheld
  | AfterSecond nat

record EligibilityResult =
  eligible :: bool
  effectiveDate :: date
  elig_remarks :: elig_remark

definition probationYears :: "ProbationPeriodType \<Rightarrow> int option \<Rightarrow> nat" where
  "probationYears probationPeriodType probationPeriodMonths =
     (if probationPeriodType = OneYear then 1
      else if probationPeriodType = TwoYears then 2
      else if or_num probationPeriodMonths 24 \<le> 18 then 1 else 2)"

text \<open>
  The five-year limit is \<^verbatim>\<open>5 * 365.25\<close> days in milliseconds; in whole days the difference
  exceeds it when four times the difference exceeds 7305.
\<close>

definition five_years_exceeded :: "date \<Rightarrow> date \<Rightarrow> bool" where
  "five_years_exceeded normalIncrementDate probationStartDate =
     (7305 < 4 * (day_number normalIncrementDate - day_number probationStartDate))"

text \<open>
  The parameters are those of the interface \<^verbatim>\<open>ProbationEligibilityCheck\<close>, in its order.
  The caller passes \<^verbatim>\<open>parseDateUTC(data.probationStartDate)!\<close>, which is undefined for an
  empty string; reading its time value is then a \<open>TypeError\<close>.
\<close>

definition calculateProbationIncrementEligibility ::
  "nat \<Rightarrow> ProbationPeriodType \<Rightarrow> int option \<Rightarrow> bool \<Rightarrow> TestStatus option \<Rightarrow> date option \<Rightarrow>
   date \<Rightarrow> date option \<Rightarrow> error + EligibilityResult" where
  "calculateProbationIncrementEligibility incrementNumber probationPeriodType probationPeriodMonths
     hasTestRequirement testStatus testPassedDate normalIncrementDate probationStartDate =
     (let unpassed = (hasTestRequirement \<and> testStatus \<noteq> Some Passed \<and> testStatus \<noteq> Some Exempted);
          testIsPassed = (testStatus = Some Passed \<and> testPassedDate \<noteq> None);
          result = \<lparr>eligible = True, effectiveDate = normalIncrementDate, elig_remarks = NormalRules\<rparr>
      in if unpassed \<and> probationStartDate = None then Inl TypeError
         else if unpassed \<and>
                 (case probationStartDate of
                    Some ps \<Rightarrow> five_years_exceeded normalIncrementDate ps
                  | None \<Rightarrow> False)
         then Inr \<lparr>eligible = False, effectiveDate = normalIncrementDate,
                   elig_remarks = ProbationTerminated\<rparr>
         else if \<not> hasTestRequirement then Inr (result\<lparr>elig_remarks := NoTestRequirement\<rparr>)
         else if probationYears probationPeriodType probationPeriodMonths = 1 then
           (if incrementNumber = 1 then
              (case (if testIsPassed then testPassedDate else None) of
                 Some tpd \<Rightarrow>
                   Inr \<lparr>eligible = True, effectiveDate = max normalIncrementDate tpd,
                        elig_remarks = FirstSanctioned (max normalIncrementDate tpd)\<rparr>
               | None \<Rightarrow> Inr (result\<lparr>eligible := False, elig_remarks := FirstWithheld\<rparr>))
            else Inr (result\<lparr>elig_remarks := AfterFirst incrementNumber\<rparr>))
         else
           (if incrementNumber = 1 then Inr (result\<lparr>elig_remarks := FirstOfTwoYears\<rparr>)
            else if incrementNumber = 2 then
              (case (if testIsPassed then testPassedDate else None) of
                 Some tpd \<Rightarrow>
                   Inr \<lparr>eligible = True, effectiveDate = max normalIncrementDate tpd,
                        elig_remarks = SecondSanctioned (max normalIncrementDate tpd)\<rparr>
               | None \<Rightarrow> Inr (result\<lparr>eligible := False, elig_remarks := SecondWithheld\<rparr>))
            else Inr (result\<lparr>elig_remarks := AfterSecond incrementNumber\<rparr>)))"

subsection \<open>Input, output and simulation state\<close>

datatype IncMonth = jan | apr | jul | oct

definition month_index :: "IncMonth \<Rightarrow> int" where
  "month_index m = (case m of jan \<Rightarrow> 0 | apr \<Rightarrow> 3 | jul \<Rightarrow> 6 | oct \<Rightarrow> 9)"

record AnnualIncrementChange =
  effectiveDate_c :: "date option"
  incrementMonth :: IncMonth

record Promotion =
  date_p :: "date option"
  post :: string
  gradePay_p :: "int option"
  level_p :: string

record AccountTestPass =
  passDate :: "date option"
  description :: string

record BreakInService =
  startDate :: "date option"
  endDate :: "date option"

text \<open>The fields of \<^verbatim>\<open>EmployeeInput\<close> that the engine reads for its computation.\<close>

record EmployeeInput =
  dateOfBirth :: "date option"
  dateOfJoining :: "date option"
  dateOfJoiningInOffice :: "date option"
  dateOfRelief :: "date option"
  annualIncrementChanges :: "AnnualIncrementChange list"
  joiningBasicPay3rdPC :: "int option"
  joiningScaleId3rdPC :: string
  joiningBasicPay4thPC :: "int option"
  joiningScaleId4thPC :: string
  joiningBasicPay5thPC :: "int option"
  joiningScaleId5thPC :: string
  joiningPayInPayBand :: "int option"
  joiningScaleId6thPC :: string
  joiningLevel :: string
  selectionGradeDate :: "date option"
  selectionGradeTwoIncrements :: bool
  specialGradeDate :: "date option"
  specialGradeTwoIncrements :: bool
  promotions :: "Promotion list"
  breaksInService :: "BreakInService list"
  accountTestPasses :: "AccountTestPass list"
  incrementEligibilityMonths :: "int option"
  cityClass :: CityClass
  daOverride :: "int option"
  calculationStartDate :: "date option"
  calculationEndDate :: "date option"
  medicalAllowance_in :: int
  cpsGpfContributionRate :: int
  professionalTax :: int
  gisContribution :: int
  probationPeriodType :: ProbationPeriodType
  probationPeriodMonths :: "int option"
  probationStartDate :: "date option"
  hasTestRequirement :: bool
  testStatus :: "TestStatus option"
  testPassedDate :: "date option"

datatype remark =
    PayFixed nat
  | CCA_abolished
  | DA_Override_applied
  | AccountTestPassed date
  | GradeScaleMoved bool "string option" string int int
  | GradeOneIncrementNoMapping bool string
  | GradeOneIncrement bool
  | GradeIncrements bool nat int int
  | PromotionTo string
  | PromotionFixedLevel int int int
  | PromotionFixedGP int int int
  | PromotionSimplified
  | AnnualIncrementApplied nat elig_remark
  | AccountTestIncrementApplied
  | AnnualIncrementWithheld nat elig_remark

record Deduction =
  ded_name :: string
  amount :: int

text \<open>The field \<open>period\<close> is the month and the year that the label of the period prints.\<close>

record PayrollPeriod =
  period :: "int \<times> int"
  basicPay :: int
  daRate :: int
  daAmount :: int
  hra :: int
  cca :: int
  medicalAllowance :: int
  grossPay :: int
  deductions :: "Deduction list"
  totalDeductions :: int
  netPay :: int
  remarks :: "remark list"
  commission :: nat
  payInPayBand :: "int option"
  gradePay :: "int option"

record PayrollYear =
  year :: int
  periods :: "PayrollPeriod list"

record Fixation4thPC =
  basicPay1986 :: int
  daPortion4 :: int
  totalPay4 :: int
  initialRevisedPay4 :: int

record Fixation5thPC =
  basicPay1995 :: int
  daPortion5 :: int
  totalPay5 :: int
  interimRelief :: int
  initialRevisedPay5 :: int

record Fixation6thPC =
  basicPay2005 :: int
  multipliedPay6 :: int
  initialPayInPayBand :: int
  initialGradePay :: int
  initialRevisedBasicPay :: int

record Fixation7thPC =
  oldBasicPay :: int
  multipliedPay :: int
  initialRevisedPay :: int
  level :: int

record IncrementAnalysis =
  regular :: nat
  selectionGrade :: nat
  specialGrade :: nat
  promotion :: nat
  accountTest :: nat
  total :: nat

record PayrollResult =
  res_fixation4thPC :: "Fixation4thPC option"
  res_fixation5thPC :: "Fixation5thPC option"
  res_fixation6thPC :: "Fixation6thPC option"
  res_fixation7thPC :: "Fixation7thPC option"
  yearlyCalculations :: "PayrollYear list"
  res_incrementAnalysis :: IncrementAnalysis

text \<open>
  The state variables of the simulation. \<open>currentDate\<close> is a parameter of the loop, and
  \<open>month_remarks\<close> and \<open>didIncrementThisMonth\<close> are the two variables that each month resets.
  \<open>yearlyCalculationsMap\<close> holds the entries of the map in the order of their insertion.
\<close>

record sim =
  currentPay :: int
  currentCommission :: nat
  currentLevel :: int
  currentPipb :: "int option"
  currentGradePay :: "int option"
  currentScaleString :: "string option"
  currentOrdinaryScaleString :: "string option"
  fixation4thPC :: "Fixation4thPC option"
  fixation5thPC :: "Fixation5thPC option"
  fixation6thPC :: "Fixation6thPC option"
  fixation7thPC :: "Fixation7thPC option"
  incrementAnalysis :: IncrementAnalysis
  accountTestIncrementPending :: bool
  currentDaRate :: int
  incrementsGranted :: nat
  nextScheduledIncrementDate :: "date option"
  month_remarks :: "remark list"
  didIncrementThisMonth :: bool
  yearlyCalculationsMap :: "PayrollYear list"

datatype event_type =
    DA_CHANGE DARate
  | PAY_COMMISSION_4
  | PAY_COMMISSION_5
  | PAY_COMMISSION_6
  | PAY_COMMISSION_7
  | SELECTION_GRADE bool
  | SPECIAL_GRADE bool
  | PROMOTION Promotion
  | ACCOUNT_TEST_PASS AccountTestPass
  | PAY_REVISION_2010 PayRevision2010

record event =
  ev_date :: date
  ev_type :: event_type
  priority :: nat

subsection \<open>Set-up of the simulation\<close>

definition truthy :: "string option \<Rightarrow> bool" where
  "truthy x = (case x of None \<Rightarrow> False | Some str \<Rightarrow> str \<noteq> [])"

definition totalBreakDays :: "BreakInService list \<Rightarrow> int" where
  "totalBreakDays bs =
     foldl (\<lambda>tot b.
        case (startDate b, endDate b) of
          (Some st, Some en) \<Rightarrow> if st < en then tot + (day_number en - day_number st) else tot
        | _ \<Rightarrow> tot) 0 bs"

text \<open>
  The schedule changes that have an effective date, as pairs of that date and the month,
  in the order of the dates (the sort of the language is stable).
\<close>

definition sortedIncrementChanges :: "AnnualIncrementChange list \<Rightarrow> (date \<times> IncMonth) list" where
  "sortedIncrementChanges cs =
     sort_key fst
       (List.map_filter (\<lambda>c. map_option (\<lambda>d. (d, incrementMonth c)) (effectiveDate_c c)) cs)"

definition firstScheduledIncrementDate ::
  "date \<Rightarrow> (date \<times> IncMonth) list \<Rightarrow> int option \<Rightarrow> int \<Rightarrow> date option" where
  "firstScheduledIncrementDate doj changes eligibilityMonths breakDays =
     (case changes of
        [] \<Rightarrow> None
      | c # _ \<Rightarrow>
          let firstEligibleDate =
                setUTCMonth doj
                  (getUTCMonth doj + (case eligibilityMonths of Some n \<Rightarrow> n | None \<Rightarrow> 6));
              firstIncrementMonth = month_index (snd c);
              yr = (if firstIncrementMonth < getUTCMonth firstEligibleDate
                    then getUTCFullYear firstEligibleDate + 1
                    else getUTCFullYear firstEligibleDate);
              d = Date_UTC yr firstIncrementMonth 1
          in Some (if 0 < breakDays then setUTCDate d (getUTCDate d + breakDays) else d))"

definition empty_analysis :: IncrementAnalysis where
  "empty_analysis =
     \<lparr>regular = 0, selectionGrade = 0, specialGrade = 0, promotion = 0, accountTest = 0, total = 0\<rparr>"

definition start_state :: "date option \<Rightarrow> sim" where
  "start_state nxt =
     \<lparr>currentPay = 0, currentCommission = 0, currentLevel = 0, currentPipb = None,
      currentGradePay = None, currentScaleString = None, currentOrdinaryScaleString = None,
      fixation4thPC = None, fixation5thPC = None, fixation6thPC = None, fixation7thPC = None,
      incrementAnalysis = empty_analysis, accountTestIncrementPending = False, currentDaRate = 0,
      incrementsGranted = 0, nextScheduledIncrementDate = nxt, month_remarks = [],
      didIncrementThisMonth = False, yearlyCalculationsMap = []\<rparr>"

definition old_joining ::
  "nat \<Rightarrow> PayScaleOld list \<Rightarrow> int option \<Rightarrow> string \<Rightarrow> bool \<Rightarrow> sim \<Rightarrow> sim res" where
  "old_joining c scales pay scaleId ordinary s =
     (case pay of
        None \<Rightarrow> throw (MissingJoiningPay c)
      | Some joiningBasicPay \<Rightarrow>
          if scaleId = [] then throw (MissingJoiningPay c)
          else (case find (\<lambda>sc. sc_id sc = scaleId) scales of
                  None \<Rightarrow> throw (InvalidScaleId c scaleId)
                | Some scaleInfo \<Rightarrow>
                    ok (s\<lparr>currentCommission := c, currentPay := joiningBasicPay,
                          currentScaleString := Some (sc_scale scaleInfo),
                          currentOrdinaryScaleString :=
                            (if ordinary then Some (sc_scale scaleInfo) else None)\<rparr>)))"

text \<open>Part 2 of \<^verbatim>\<open>calculateFullPayroll\<close>: the pay at the date of joining.\<close>

definition initial_fixation :: "tables \<Rightarrow> EmployeeInput \<Rightarrow> date \<Rightarrow> sim \<Rightarrow> sim res" where
  "initial_fixation T data doj s =
     (if doj < mkDate 1986 1 1 then
        old_joining 3 (PAY_SCALES_3RD_PC T) (joiningBasicPay3rdPC data) (joiningScaleId3rdPC data) False s
      else if doj < mkDate 1996 1 1 then
        old_joining 4 (PAY_SCALES_4TH_PC T) (joiningBasicPay4thPC data) (joiningScaleId4thPC data) False s
      else if doj < mkDate 2006 1 1 then
        old_joining 5 (PAY_SCALES_5TH_PC T) (joiningBasicPay5thPC data) (joiningScaleId5thPC data) True s
      else if doj < mkDate 2016 1 1 then
        (case joiningPayInPayBand data of
           None \<Rightarrow> throw (MissingJoiningPay 6)
         | Some pipb \<Rightarrow>
             if joiningScaleId6thPC data = [] then throw (MissingJoiningPay 6)
             else (case find (\<lambda>sc. ps_id sc = joiningScaleId6thPC data) (PAY_SCALES_6TH_PC T) of
                     None \<Rightarrow> throw (InvalidScaleId 6 (joiningScaleId6thPC data))
                   | Some scaleInfo \<Rightarrow>
                       ok (s\<lparr>currentCommission := 6, currentPipb := Some pipb,
                             currentGradePay := Some (ps_gradePay scaleInfo),
                             currentPay := pipb + ps_gradePay scaleInfo\<rparr>)))
      else if joiningLevel data = [] then throw MissingLevel
      else (case parseInt10 (joiningLevel data) of
              None \<Rightarrow> throw TypeError
            | Some lv \<Rightarrow>
                (case PAY_MATRIX T lv of
                   None \<Rightarrow> throw TypeError
                 | Some [] \<Rightarrow> throw UndefinedPay
                 | Some (p # _) \<Rightarrow>
                     ok (s\<lparr>currentCommission := 7, currentLevel := lv, currentPay := p\<rparr>))))"

text \<open>
  Part 3: the event list, in the order in which the code builds it: the DA changes, the
  four commission transitions, and the events of the career and of the 2010 revisions.
\<close>

definition da_event :: "DARate \<Rightarrow> event" where
  "da_event da = \<lparr>ev_date = da_date da, ev_type = DA_CHANGE da, priority = 1\<rparr>"

definition commission_events :: "event list" where
  "commission_events =
     [\<lparr>ev_date = mkDate 1986 1 1, ev_type = PAY_COMMISSION_4, priority = 2\<rparr>,
      \<lparr>ev_date = mkDate 1996 1 1, ev_type = PAY_COMMISSION_5, priority = 2\<rparr>,
      \<lparr>ev_date = mkDate 2006 1 1, ev_type = PAY_COMMISSION_6, priority = 2\<rparr>,
      \<lparr>ev_date = mkDate 2016 1 1, ev_type = PAY_COMMISSION_7, priority = 2\<rparr>]"

definition career_events :: "tables \<Rightarrow> EmployeeInput \<Rightarrow> event list" where
  "career_events T data =
     (case selectionGradeDate data of
        None \<Rightarrow> []
      | Some d \<Rightarrow> [\<lparr>ev_date = d, ev_type = SELECTION_GRADE (selectionGradeTwoIncrements data),
                     priority = 3\<rparr>])
     @ (case specialGradeDate data of
          None \<Rightarrow> []
        | Some d \<Rightarrow> [\<lparr>ev_date = d, ev_type = SPECIAL_GRADE (specialGradeTwoIncrements data),
                       priority = 3\<rparr>])
     @ List.map_filter
         (\<lambda>p. map_option (\<lambda>d. \<lparr>ev_date = d, ev_type = PROMOTION p, priority = 3\<rparr>) (date_p p))
         (promotions data)
     @ List.map_filter
         (\<lambda>a. map_option (\<lambda>d. \<lparr>ev_date = d, ev_type = ACCOUNT_TEST_PASS a, priority = 3\<rparr>)
                (passDate a))
         (accountTestPasses data)
     @ map (\<lambda>revision. \<lparr>ev_date = mkDate 2010 8 1, ev_type = PAY_REVISION_2010 revision,
                        priority = 3\<rparr>)
         (PAY_REVISIONS_2010 T)"

definition build_events :: "tables \<Rightarrow> EmployeeInput \<Rightarrow> event list" where
  "build_events T data = map da_event (DA_RATES T) @ commission_events @ career_events T data"

definition monthEvents :: "event list \<Rightarrow> date \<Rightarrow> event list" where
  "monthEvents events currentDate =
     sort_key priority
       (filter (\<lambda>e. getUTCFullYear (ev_date e) = getUTCFullYear currentDate
                   \<and> getUTCMonth (ev_date e) = getUTCMonth currentDate) events)"

subsection \<open>Pay commission fixation\<close>

definition add_remark :: "remark \<Rightarrow> sim \<Rightarrow> sim" where
  "add_remark r s = s\<lparr>month_remarks := month_remarks s @ [r]\<rparr>"

definition scale_suffix_match :: "string option \<Rightarrow> PayScaleOld \<Rightarrow> bool" where
  "scale_suffix_match cur sc = (case cur of None \<Rightarrow> False | Some str \<Rightarrow> suffix str (sc_id sc))"

definition fix_4th :: "tables \<Rightarrow> sim \<Rightarrow> sim res" where
  "fix_4th T s =
     (let b = currentPay s; daPortion = 0; totalPay = b + daPortion
      in case find (scale_suffix_match (currentScaleString s)) (PAY_SCALES_4TH_PC T) of
           None \<Rightarrow> throw (CouldNotMapScale 3 (currentScaleString s))
         | Some sc \<Rightarrow>
             (case findNextHigherStageInScale totalPay (sc_scale sc) of
                None \<Rightarrow> None
              | Some newPay \<Rightarrow>
                  ok (add_remark (PayFixed 4)
                       (s\<lparr>currentPay := newPay, currentScaleString := Some (sc_scale sc),
                          currentCommission := 4,
                          fixation4thPC := Some \<lparr>basicPay1986 = b, daPortion4 = daPortion,
                            totalPay4 = totalPay, initialRevisedPay4 = newPay\<rparr>\<rparr>))))"

definition fix_5th :: "tables \<Rightarrow> sim \<Rightarrow> sim res" where
  "fix_5th T s =
     (let b = currentPay s; daPortion = 958; ir = 100; totalPay = b + daPortion + ir
      in case find (scale_suffix_match (currentScaleString s)) (PAY_SCALES_5TH_PC T) of
           None \<Rightarrow> throw (CouldNotMapScale 4 (currentScaleString s))
         | Some sc \<Rightarrow>
             (case findNextHigherStageInScale totalPay (sc_scale sc) of
                None \<Rightarrow> None
              | Some newPay \<Rightarrow>
                  ok (add_remark (PayFixed 5)
                       (s\<lparr>currentPay := newPay, currentScaleString := Some (sc_scale sc),
                          currentOrdinaryScaleString := Some (sc_scale sc),
                          currentCommission := 5,
                          fixation5thPC := Some \<lparr>basicPay1995 = b, daPortion5 = daPortion,
                            totalPay5 = totalPay, interimRelief = ir,
                            initialRevisedPay5 = newPay\<rparr>\<rparr>))))"

definition fix_6th :: "tables \<Rightarrow> sim \<Rightarrow> sim res" where
  "fix_6th T s =
     (let b = currentPay s; m = round_times b FITMENT_MULTIPLIER_6TH_PC_TN
      in case find (\<lambda>sc. Some (ps_scale sc) = currentScaleString s) (PAY_SCALES_6TH_PC T) of
           None \<Rightarrow> throw (CouldNotMapScale 5 (currentScaleString s))
         | Some scaleInfo \<Rightarrow>
             ok (add_remark (PayFixed 6)
                  (s\<lparr>currentPipb := Some m, currentGradePay := Some (ps_gradePay scaleInfo),
                     currentPay := m + ps_gradePay scaleInfo, currentCommission := 6,
                     fixation6thPC := Some \<lparr>basicPay2005 = b, multipliedPay6 = m,
                       initialPayInPayBand = m, initialGradePay = ps_gradePay scaleInfo,
                       initialRevisedBasicPay = m + ps_gradePay scaleInfo\<rparr>\<rparr>)))"

text \<open>
  The 7th-commission fixation. \<^verbatim>\<open>!levelFor7PC\<close> holds for a grade pay without an entry
  in the table, for an entry 0, and for an undefined grade pay.
\<close>

definition levelFor7PC :: "tables \<Rightarrow> int option \<Rightarrow> int option" where
  "levelFor7PC T gp =
     (case gp of
        None \<Rightarrow> None
      | Some g \<Rightarrow> (case GRADE_PAY_TO_LEVEL T g of
                     None \<Rightarrow> None
                   | Some lv \<Rightarrow> if lv = 0 then None else Some lv))"

definition fix_7th :: "tables \<Rightarrow> sim \<Rightarrow> sim res" where
  "fix_7th T s =
     (let b = currentPay s; m = round_times b FITMENT_FACTOR_7TH_PC
      in case levelFor7PC T (currentGradePay s) of
           None \<Rightarrow> throw (NoLevelForGradePay (currentGradePay s))
         | Some lv \<Rightarrow>
             bnd (findPayInMatrix T m lv) (\<lambda>newPay.
               ok (add_remark CCA_abolished (add_remark (PayFixed 7)
                    (s\<lparr>currentLevel := lv, currentPay := newPay, currentPipb := None,
                       currentGradePay := None, currentCommission := 7,
                       fixation7thPC := Some \<lparr>oldBasicPay = b, multipliedPay = m,
                         initialRevisedPay = newPay, level = lv\<rparr>\<rparr>)))))"

subsection \<open>Events of a month\<close>

definition da_change :: "EmployeeInput \<Rightarrow> DARate \<Rightarrow> sim \<Rightarrow> sim" where
  "da_change data daData s =
     (if da_commission daData = currentCommission s
         \<or> (currentCommission s < 6 \<and> da_commission daData = 5)
      then let s1 = s\<lparr>currentDaRate :=
                        (case daOverride data of Some v \<Rightarrow> v | None \<Rightarrow> da_rate daData)\<rparr>
           in if or_num (daOverride data) 0 \<noteq> 0 then add_remark DA_Override_applied s1 else s1
      else s)"

definition count_grade :: "bool \<Rightarrow> IncrementAnalysis \<Rightarrow> IncrementAnalysis" where
  "count_grade isSelection ia =
     (if isSelection then ia\<lparr>selectionGrade := selectionGrade ia + 1, total := total ia + 1\<rparr>
      else ia\<lparr>specialGrade := specialGrade ia + 1, total := total ia + 1\<rparr>)"

definition count_promotion :: "IncrementAnalysis \<Rightarrow> IncrementAnalysis" where
  "count_promotion ia = ia\<lparr>promotion := promotion ia + 1, total := total ia + 1\<rparr>"

definition count_regular :: "IncrementAnalysis \<Rightarrow> IncrementAnalysis" where
  "count_regular ia = ia\<lparr>regular := regular ia + 1, total := total ia + 1\<rparr>"

definition count_accountTest :: "IncrementAnalysis \<Rightarrow> IncrementAnalysis" where
  "count_accountTest ia = ia\<lparr>accountTest := accountTest ia + 1, total := total ia + 1\<rparr>"

definition set_pay :: "int \<times> int option \<Rightarrow> sim \<Rightarrow> sim" where
  "set_pay r s =
     s\<lparr>currentPay := fst r,
       currentPipb := (case snd r of Some v \<Rightarrow> Some v | None \<Rightarrow> currentPipb s)\<rparr>"

text \<open>The pay change of a selection or special grade event (before the counters).\<close>

definition grade_pay_change :: "tables \<Rightarrow> bool \<Rightarrow> bool \<Rightarrow> sim \<Rightarrow> sim res" where
  "grade_pay_change T isSelection applyFixation s =
     (let oldPay = currentPay s
      in if currentCommission s < 6 then
           (case (if currentCommission s = 5 \<and> applyFixation
                     \<and> truthy (currentOrdinaryScaleString s)
                  then currentOrdinaryScaleString s else None) of
              Some ord \<Rightarrow>
                (case (case FIFTH_PC_SG_SP_GRADE_MAPPING T ord of
                         None \<Rightarrow> None
                       | Some m \<Rightarrow>
                           if (if isSelection then selection m else special m) = [] then None
                           else Some (if isSelection then selection m else special m)) of
                   Some newScaleString \<Rightarrow>
                     (case findNextHigherStageInScale oldPay newScaleString of
                        None \<Rightarrow> None
                      | Some newPay \<Rightarrow>
                          ok (add_remark
                                (GradeScaleMoved isSelection (currentScaleString s) newScaleString
                                   oldPay newPay)
                                (s\<lparr>currentPay := newPay,
                                   currentScaleString := Some newScaleString\<rparr>)))
                 | None \<Rightarrow>
                     (case currentScaleString s of
                        None \<Rightarrow> throw TypeError
                      | Some cs \<Rightarrow>
                          ok (add_remark (GradeOneIncrementNoMapping isSelection ord)
                                (s\<lparr>currentPay := getIncrementInScale oldPay cs 1\<rparr>))))
            | None \<Rightarrow>
                (case currentScaleString s of
                   None \<Rightarrow> ok s
                 | Some cs \<Rightarrow>
                     if cs = [] then ok s
                     else ok (add_remark (GradeOneIncrement isSelection)
                                (s\<lparr>currentPay := getIncrementInScale oldPay cs 1\<rparr>))))
         else
           (let steps = (if applyFixation then 2 else 1)
            in bnd (getIncrement T oldPay (currentLevel s) steps (currentCommission s)
                      (currentGradePay s))
                 (\<lambda>r. ok (add_remark (GradeIncrements isSelection steps oldPay (fst r))
                             (set_pay r s)))))"

definition grade_event :: "tables \<Rightarrow> bool \<Rightarrow> bool \<Rightarrow> sim \<Rightarrow> sim res" where
  "grade_event T isSelection applyFixation s =
     (if didIncrementThisMonth s then ok s
      else bnd (grade_pay_change T isSelection applyFixation s)
             (\<lambda>s1. ok (s1\<lparr>didIncrementThisMonth := True,
                           incrementAnalysis := count_grade isSelection (incrementAnalysis s1)\<rparr>)))"

definition promotion_event :: "tables \<Rightarrow> Promotion \<Rightarrow> sim \<Rightarrow> sim res" where
  "promotion_event T promoData s =
     (if didIncrementThisMonth s then ok s
      else
        let oldPay = currentPay s;
            s1 = (add_remark (PromotionTo (post promoData)) s)
                   \<lparr>incrementAnalysis := count_promotion (incrementAnalysis s)\<rparr>
        in if currentCommission s = 7 then
             bnd (getIncrement T oldPay (currentLevel s) 1 7 None) (\<lambda>r.
               case parseInt10 (level_p promoData) of
                 None \<Rightarrow> throw (InvalidLevelForPromotion (level_p promoData))
               | Some newLevel \<Rightarrow>
                   if PAY_MATRIX T newLevel = None
                   then throw (InvalidLevelForPromotion (level_p promoData))
                   else bnd (findPayInMatrix T (fst r) newLevel) (\<lambda>newPay.
                          ok ((add_remark (PromotionFixedLevel (fst r) newLevel newPay) s1)
                                \<lparr>currentPay := newPay, currentLevel := newLevel,
                                 didIncrementThisMonth := True\<rparr>)))
           else if currentCommission s = 6 then
             bnd (getIncrement T oldPay 0 1 6 (currentGradePay s)) (\<lambda>r.
               case find (\<lambda>sc. Some (ps_gradePay sc) = gradePay_p promoData)
                      (PAY_SCALES_6TH_PC T) of
                 None \<Rightarrow> throw (InvalidGradePayForPromotion (gradePay_p promoData))
               | Some newScaleInfo \<Rightarrow>
                   (case PAY_BAND_LIMITS_6TH_PC T (ps_gradePay newScaleInfo) of
                      None \<Rightarrow> throw TypeError
                    | Some l \<Rightarrow>
                        (case snd r of
                           None \<Rightarrow> throw UndefinedPay
                         | Some notionalPipb \<Rightarrow>
                             let gp = ps_gradePay newScaleInfo;
                                 pipb = max notionalPipb (pb_min l)
                             in ok ((add_remark (PromotionFixedGP (fst r) gp (pipb + gp)) s1)
                                      \<lparr>currentGradePay := Some gp, currentPipb := Some pipb,
                                       currentPay := pipb + gp,
                                       didIncrementThisMonth := True\<rparr>))))
           else
             (case currentScaleString s of
                None \<Rightarrow> throw TypeError
              | Some cs \<Rightarrow>
                  ok ((add_remark PromotionSimplified s1)
                        \<lparr>currentPay := getIncrementInScale oldPay cs 1,
                         didIncrementThisMonth := True\<rparr>)))"

text \<open>
  The body of the loop over the events of the month, for one event. The handler of
  \<^verbatim>\<open>PAY_REVISION_2010\<close> is empty in the source.
\<close>

definition apply_event :: "tables \<Rightarrow> EmployeeInput \<Rightarrow> event \<Rightarrow> sim \<Rightarrow> sim res" where
  "apply_event T data e s =
     (case ev_type e of
        PAY_COMMISSION_4 \<Rightarrow> if currentCommission s = 3 then fix_4th T s else ok s
      | PAY_COMMISSION_5 \<Rightarrow> if currentCommission s = 4 then fix_5th T s else ok s
      | PAY_COMMISSION_6 \<Rightarrow> if currentCommission s = 5 then fix_6th T s else ok s
      | PAY_COMMISSION_7 \<Rightarrow> if currentCommission s = 6 then fix_7th T s else ok s
      | DA_CHANGE daData \<Rightarrow> ok (da_change data daData s)
      | ACCOUNT_TEST_PASS a \<Rightarrow>
          ok (add_remark (AccountTestPassed (ev_date e)) (s\<lparr>accountTestIncrementPending := True\<rparr>))
      | PAY_REVISION_2010 revision \<Rightarrow> ok s
      | SELECTION_GRADE applyFixation \<Rightarrow> grade_event T True applyFixation s
      | SPECIAL_GRADE applyFixation \<Rightarrow> grade_event T False applyFixation s
      | PROMOTION promoData \<Rightarrow> promotion_event T promoData s)"

fun process_events :: "tables \<Rightarrow> EmployeeInput \<Rightarrow> event list \<Rightarrow> sim \<Rightarrow> sim res" where
  "process_events T data [] s = ok s"
| "process_events T data (e # es) s = bnd (apply_event T data e s) (process_events T data es)"

subsection \<open>The annual increment\<close>

definition one_increment :: "tables \<Rightarrow> sim \<Rightarrow> sim res" where
  "one_increment T s =
     (if currentCommission s < 6 then
        (case currentScaleString s of
           None \<Rightarrow> throw TypeError
         | Some cs \<Rightarrow> ok (s\<lparr>currentPay := getIncrementInScale (currentPay s) cs 1\<rparr>))
      else bnd (getIncrement T (currentPay s) (currentLevel s) 1 (currentCommission s)
                  (currentGradePay s))
             (\<lambda>r. ok (set_pay r s)))"

definition next_increment_date :: "(date \<times> IncMonth) list \<Rightarrow> date \<Rightarrow> date \<Rightarrow> date res" where
  "next_increment_date changes currentDate scheduled =
     (if changes = [] then throw TypeError
      else let applicableChange =
                 (case filter (\<lambda>c. fst c \<le> currentDate) changes of
                    [] \<Rightarrow> last changes
                  | c # cs \<Rightarrow> last (c # cs));
               nextMonth = month_index (snd applicableChange);
               nextDate = setUTCFullYear scheduled (getUTCFullYear scheduled + 1)
           in ok (setUTCMonth nextDate nextMonth))"

definition account_test_increment :: "tables \<Rightarrow> sim \<Rightarrow> sim res" where
  "account_test_increment T s =
     (if accountTestIncrementPending s then
        bnd (one_increment T s) (\<lambda>s1.
          ok ((add_remark AccountTestIncrementApplied s1)
                \<lparr>accountTestIncrementPending := False,
                 incrementAnalysis := count_accountTest (incrementAnalysis s1)\<rparr>))
      else ok s)"

definition grant_increment ::
  "tables \<Rightarrow> (date \<times> IncMonth) list \<Rightarrow> date \<Rightarrow> date \<Rightarrow> EligibilityResult \<Rightarrow> sim \<Rightarrow> sim res" where
  "grant_increment T changes currentDate scheduled eligibility s =
     bnd (one_increment T s) (\<lambda>s1.
       bnd (account_test_increment T
              ((add_remark (AnnualIncrementApplied (incrementsGranted s + 1)
                              (elig_remarks eligibility)) s1)
                 \<lparr>incrementsGranted := incrementsGranted s + 1,
                  incrementAnalysis := count_regular (incrementAnalysis s1)\<rparr>)) (\<lambda>s2.
         bnd (next_increment_date changes currentDate scheduled) (\<lambda>nextDate.
           ok (s2\<lparr>didIncrementThisMonth := True,
                  nextScheduledIncrementDate := Some nextDate\<rparr>))))"

definition annual_increment ::
  "tables \<Rightarrow> EmployeeInput \<Rightarrow> (date \<times> IncMonth) list \<Rightarrow> date \<Rightarrow> sim \<Rightarrow> sim res" where
  "annual_increment T data changes currentDate s =
     (case nextScheduledIncrementDate s of
        None \<Rightarrow> ok s
      | Some scheduled \<Rightarrow>
          if scheduled \<le> currentDate \<and> \<not> didIncrementThisMonth s then
            (case calculateProbationIncrementEligibility (incrementsGranted s + 1)
                    (probationPeriodType data) (probationPeriodMonths data)
                    (hasTestRequirement data) (testStatus data) (testPassedDate data)
                    scheduled (probationStartDate data) of
               Inl e \<Rightarrow> throw e
             | Inr eligibility \<Rightarrow>
                 if eligible eligibility \<and> effectiveDate eligibility \<le> currentDate
                 then grant_increment T changes currentDate scheduled eligibility s
                 else if \<not> eligible eligibility
                 then ok (add_remark (AnnualIncrementWithheld (incrementsGranted s + 1)
                                        (elig_remarks eligibility)) s)
                 else ok s)
          else ok s)"

subsection \<open>The monthly record\<close>

definition make_deductions :: "EmployeeInput \<Rightarrow> int \<Rightarrow> Deduction list" where
  "make_deductions data cpsGpfAmount =
     [\<lparr>ded_name = ''CPS/GPF'', amount = cpsGpfAmount\<rparr>]
     @ (if 0 < professionalTax data
        then [\<lparr>ded_name = ''Professional Tax'', amount = professionalTax data\<rparr>] else [])
     @ (if 0 < gisContribution data
        then [\<lparr>ded_name = ''GIS'', amount = gisContribution data\<rparr>] else [])"

definition make_period :: "tables \<Rightarrow> EmployeeInput \<Rightarrow> date \<Rightarrow> sim \<Rightarrow> PayrollPeriod" where
  "make_period T data currentDate s =
     (let da = round_percent (currentPay s) (currentDaRate s);
          h = getHra T (currentPay s) (mapCityClassToGrade (cityClass data)) currentDate;
          c = (if 7 \<le> currentCommission s then 0 else or_num (CCA_RATES T (cityClass data)) 0);
          med = medicalAllowance_in data;
          gross = currentPay s + da + h + c + med;
          ds = make_deductions data
                 (round_percent (currentPay s + da) (cpsGpfContributionRate data));
          tot = foldl (\<lambda>acc d. acc + amount d) 0 ds
      in \<lparr>period = (getUTCMonth currentDate, getUTCFullYear currentDate),
          basicPay = currentPay s, daRate = currentDaRate s, daAmount = da, hra = h, cca = c,
          medicalAllowance = med, grossPay = gross, deductions = ds, totalDeductions = tot,
          netPay = gross - tot, remarks = month_remarks s, commission = currentCommission s,
          payInPayBand = currentPipb s, gradePay = currentGradePay s\<rparr>)"

text \<open>\<^verbatim>\<open>yearlyCalculationsMap.get(year).push(p)\<close>, after the entry is made when missing.\<close>

fun push_year :: "int \<Rightarrow> PayrollPeriod \<Rightarrow> PayrollYear list \<Rightarrow> PayrollYear list" where
  "push_year y p [] = [\<lparr>year = y, periods = [p]\<rparr>]"
| "push_year y p (g # gs) =
     (if year g = y then g\<lparr>periods := periods g @ [p]\<rparr> # gs else g # push_year y p gs)"

definition store_month :: "tables \<Rightarrow> EmployeeInput \<Rightarrow> date \<Rightarrow> date \<Rightarrow> sim \<Rightarrow> sim" where
  "store_month T data calcStartDate currentDate s =
     (if calcStartDate \<le> currentDate
      then s\<lparr>yearlyCalculationsMap :=
               push_year (getUTCFullYear currentDate) (make_period T data currentDate s)
                 (yearlyCalculationsMap s)\<rparr>
      else s)"

subsection \<open>The simulation loop and the entry point\<close>

definition month_step ::
  "tables \<Rightarrow> EmployeeInput \<Rightarrow> event list \<Rightarrow> (date \<times> IncMonth) list \<Rightarrow> date \<Rightarrow> date \<Rightarrow> sim \<Rightarrow> sim res" where
  "month_step T data events changes calcStartDate currentDate s =
     bnd (process_events T data (monthEvents events currentDate)
            (s\<lparr>month_remarks := [], didIncrementThisMonth := False\<rparr>)) (\<lambda>s1.
       bnd (annual_increment T data changes currentDate s1) (\<lambda>s2.
         ok (store_month T data calcStartDate currentDate s2)))"

definition next_month :: "date \<Rightarrow> date" where
  "next_month currentDate = setUTCMonth currentDate (getUTCMonth currentDate + 1)"

lemma MakeDate_month_ge: "mi \<le> fst (MakeDate mi d)"
proof (induction mi d rule: MakeDate.induct)
  case (1 mi d)
  show ?case
  proof (cases "days_in_month mi < d")
    case True
    with 1 have "mi + 1 \<le> fst (MakeDate (mi + 1) (d - days_in_month mi))" by simp
    with True show ?thesis by (subst MakeDate.simps) simp
  next
    case False
    then show ?thesis by (subst MakeDate.simps) simp
  qed
qed

lemma next_month_later: "fst d < fst (next_month d)"
proof -
  have "12 * (fst d div 12) + (fst d mod 12 + 1) \<le> fst (next_month d)"
    unfolding next_month_def setUTCMonth_def getUTCFullYear_def getUTCMonth_def
    by (rule MakeDate_month_ge)
  then show ?thesis by simp
qed

function sim_loop ::
  "tables \<Rightarrow> EmployeeInput \<Rightarrow> event list \<Rightarrow> (date \<times> IncMonth) list \<Rightarrow> date \<Rightarrow> date \<Rightarrow> date \<Rightarrow> sim
   \<Rightarrow> sim res" where
  "sim_loop T data events changes calcStartDate calcEndDate currentDate s =
     (if currentDate \<le> calcEndDate
      then bnd (month_step T data events changes calcStartDate currentDate s)
             (sim_loop T data events changes calcStartDate calcEndDate (next_month currentDate))
      else ok s)"
  by pat_completeness auto
termination
proof (relation "measure (\<lambda>(T, data, events, changes, cs, ce, d, s). nat (fst ce + 1 - fst d))")
  show "wf (measure (\<lambda>(T, data, events, changes, cs, ce, d, s). nat (fst ce + 1 - fst d)))"
    by simp
next
  fix T :: tables and data :: EmployeeInput and events :: "event list"
    and changes :: "(date \<times> IncMonth) list" and calcStartDate calcEndDate currentDate :: date
    and s x :: sim
  assume le: "currentDate \<le> calcEndDate"
  then have "fst currentDate \<le> fst calcEndDate"
    by (auto simp: less_eq_prod_def)
  with next_month_later [of currentDate]
  show "((T, data, events, changes, calcStartDate, calcEndDate, next_month currentDate, x),
         (T, data, events, changes, calcStartDate, calcEndDate, currentDate, s))
        \<in> measure (\<lambda>(T, data, events, changes, cs, ce, d, s). nat (fst ce + 1 - fst d))"
    by simp
qed

declare sim_loop.simps [simp del]

text \<open>The date at which the loop that runs to \<open>calcEndDate\<close> stops: its first date past the end.\<close>

function stop_date :: "date \<Rightarrow> date \<Rightarrow> date" where
  "stop_date calcEndDate currentDate =
     (if currentDate \<le> calcEndDate then stop_date calcEndDate (next_month currentDate)
      else currentDate)"
  by pat_completeness auto
termination
proof (relation "measure (\<lambda>(ce, d). nat (fst ce + 1 - fst d))")
  show "wf (measure (\<lambda>(ce, d). nat (fst ce + 1 - fst d)))" by simp
next
  fix calcEndDate currentDate :: date
  assume "currentDate \<le> calcEndDate"
  then have "fst currentDate \<le> fst calcEndDate" by (auto simp: less_eq_prod_def)
  with next_month_later [of currentDate]
  show "((calcEndDate, next_month currentDate), (calcEndDate, currentDate))
        \<in> measure (\<lambda>(ce, d). nat (fst ce + 1 - fst d))"
    by simp
qed

declare stop_date.simps [simp del]

text \<open>
  Part 5 formats the employee details; it reads the parsed dates of birth and of joining
  the office, of every promotion and of every account test, and a missing one is a
  \<open>TypeError\<close>. The formatted details themselves are left out of the result.
\<close>

definition finish :: "EmployeeInput \<Rightarrow> sim \<Rightarrow> PayrollResult res" where
  "finish data s =
     (if dateOfBirth data = None \<or> dateOfJoiningInOffice data = None
         \<or> list_ex (\<lambda>p. date_p p = None) (promotions data)
         \<or> list_ex (\<lambda>a. passDate a = None) (accountTestPasses data)
      then throw TypeError
      else ok \<lparr>res_fixation4thPC = fixation4thPC s, res_fixation5thPC = fixation5thPC s,
               res_fixation6thPC = fixation6thPC s, res_fixation7thPC = fixation7thPC s,
               yearlyCalculations = yearlyCalculationsMap s,
               res_incrementAnalysis = incrementAnalysis s\<rparr>)"

definition effective_end :: "EmployeeInput \<Rightarrow> date \<Rightarrow> date" where
  "effective_end data calcEndDate =
     (case dateOfRelief data of
        Some reliefDate \<Rightarrow> if reliefDate < calcEndDate then reliefDate else calcEndDate
      | None \<Rightarrow> calcEndDate)"

definition initial_state :: "tables \<Rightarrow> EmployeeInput \<Rightarrow> date \<Rightarrow> sim res" where
  "initial_state T data doj =
     initial_fixation T data doj
       (start_state
          (firstScheduledIncrementDate doj (sortedIncrementChanges (annualIncrementChanges data))
             (incrementEligibilityMonths data) (totalBreakDays (breaksInService data))))"

definition simulate :: "tables \<Rightarrow> EmployeeInput \<Rightarrow> date \<Rightarrow> date \<Rightarrow> date \<Rightarrow> sim res" where
  "simulate T data doj calcStartDate calcEndDate =
     bnd (initial_state T data doj)
       (sim_loop T data (build_events T data) (sortedIncrementChanges (annualIncrementChanges data))
          calcStartDate (effective_end data calcEndDate) doj)"

definition calculateFullPayroll :: "tables \<Rightarrow> EmployeeInput \<Rightarrow> PayrollResult res" where
  "calculateFullPayroll T data =
     (case (dateOfJoining data, calculationStartDate data, calculationEndDate data) of
        (Some doj, Some calcStartDate, Some calcEndDate) \<Rightarrow>
          if doj < mkDate 1980 1 1 then throw Before1980
          else bnd (simulate T data doj calcStartDate calcEndDate) (finish data)
      | _ \<Rightarrow> throw MissingRequiredFields)"

section \<open>Notions used in the statements and invariants\<close>

text \<open>
  A property of the value a fallible step returns, if it returns one.
\<close>

definition res_all :: "('a \<Rightarrow> bool) \<Rightarrow> 'a res \<Rightarrow> bool" where
  "res_all Q m = (\<forall>x. m = Some (Inr x) \<longrightarrow> Q x)"

text \<open>
  The total of an increment analysis is the sum of its five counters.
\<close>

definition balanced :: "IncrementAnalysis \<Rightarrow> bool" where
  "balanced ia = (total ia = regular ia + selectionGrade ia + specialGrade ia + promotion ia + accountTest ia)"

text \<open>
  What the events of a month leave alone: the commission does not go down, the
  monthly records, the increment schedule and the counters of regular and account test
  increments are untouched, and a balanced analysis stays balanced.
\<close>

definition ev_frame :: "sim \<Rightarrow> sim \<Rightarrow> bool" where
  "ev_frame s s' =
     (currentCommission s \<le> currentCommission s'
      \<and> yearlyCalculationsMap s' = yearlyCalculationsMap s
      \<and> nextScheduledIncrementDate s' = nextScheduledIncrementDate s
      \<and> incrementsGranted s' = incrementsGranted s
      \<and> regular (incrementAnalysis s') = regular (incrementAnalysis s)
      \<and> accountTest (incrementAnalysis s') = accountTest (incrementAnalysis s)
      \<and> (balanced (incrementAnalysis s) \<longrightarrow> balanced (incrementAnalysis s')))"

text \<open>
  The monthly periods of a result in output order, and the shape of the list of years
  (strictly increasing, none after the given year).
\<close>

definition series :: "PayrollYear list \<Rightarrow> PayrollPeriod list" where
  "series m = concat (map periods m)"

definition years_ok :: "int \<Rightarrow> PayrollYear list \<Rightarrow> bool" where
  "years_ok y m = (sorted_wrt (<) (map year m) \<and> (\<forall>g\<in>set m. year g \<le> y))"

text \<open>
  What the annual increment leaves alone.
\<close>

definition keeps :: "sim \<Rightarrow> sim \<Rightarrow> bool" where
  "keeps s s' =
     (currentCommission s' = currentCommission s
      \<and> yearlyCalculationsMap s' = yearlyCalculationsMap s
      \<and> currentDaRate s' = currentDaRate s
      \<and> (balanced (incrementAnalysis s) \<longrightarrow> balanced (incrementAnalysis s')))"

text \<open>
  The loop invariant for the commission column.
\<close>

definition cinv :: "date \<Rightarrow> sim \<Rightarrow> bool" where
  "cinv d s =
     (years_ok (getUTCFullYear d) (yearlyCalculationsMap s)
      \<and> sorted (map commission (series (yearlyCalculationsMap s)))
      \<and> (\<forall>p\<in>set (series (yearlyCalculationsMap s)). commission p \<le> currentCommission s))"

text \<open>
  The month count of a period, and the two loop invariants that compare runs with
  different end dates: all periods so far are at most a month, and all periods after a given
  stretch are at least a month.
\<close>

definition month_of :: "PayrollPeriod \<Rightarrow> int" where
  "month_of p = 12 * snd (period p) + fst (period p)"



text \<open>
  The DA events, the DA entries of a month, the matching of an entry against the current
  commission (line 405 of the source) and the rate the entries of a month leave behind.
\<close>

definition is_da :: "event \<Rightarrow> bool" where
  "is_da e = (case ev_type e of DA_CHANGE da \<Rightarrow> True | _ \<Rightarrow> False)"

definition same_month :: "date \<Rightarrow> date \<Rightarrow> bool" where
  "same_month a b = (getUTCFullYear a = getUTCFullYear b \<and> getUTCMonth a = getUTCMonth b)"

definition month_das :: "tables \<Rightarrow> date \<Rightarrow> DARate list" where
  "month_das T d = filter (\<lambda>da. same_month (da_date da) d) (DA_RATES T)"

definition da_matches :: "nat \<Rightarrow> DARate \<Rightarrow> bool" where
  "da_matches c da = (da_commission da = c \<or> (c < 6 \<and> da_commission da = 5))"

definition da_pick :: "EmployeeInput \<Rightarrow> nat \<Rightarrow> int \<Rightarrow> DARate list \<Rightarrow> int" where
  "da_pick data c r das =
     foldl (\<lambda>r da. if da_matches c da
                    then (case daOverride data of Some v \<Rightarrow> v | None \<Rightarrow> da_rate da) else r) r das"

text \<open>
  The shape of the deductions of a period and the sums of a period.
\<close>

definition deductions_of :: "EmployeeInput \<Rightarrow> Deduction list \<Rightarrow> bool" where
  "deductions_of data ds =
     (\<exists>c. ds = \<lparr>ded_name = ''CPS/GPF'', amount = c\<rparr>
               # (if 0 < professionalTax data
                  then [\<lparr>ded_name = ''Professional Tax'', amount = professionalTax data\<rparr>]
                  else [])
               @ (if 0 < gisContribution data
                  then [\<lparr>ded_name = ''GIS'', amount = gisContribution data\<rparr>] else []))"

definition period_sums :: "EmployeeInput \<Rightarrow> PayrollPeriod \<Rightarrow> bool" where
  "period_sums data p =
     (grossPay p = basicPay p + daAmount p + hra p + cca p + medicalAllowance p
      \<and> netPay p = grossPay p - totalDeductions p
      \<and> totalDeductions p = sum_list (map amount (deductions p))
      \<and> deductions_of data (deductions p))"

text \<open>
  The events that may change the basic pay, and a state without increment schedule.
\<close>

definition pay_event :: "event \<Rightarrow> bool" where
  "pay_event e =
     (case ev_type e of
        DA_CHANGE da \<Rightarrow> False
      | ACCOUNT_TEST_PASS a \<Rightarrow> False
      | PAY_REVISION_2010 revision \<Rightarrow> False
      | _ \<Rightarrow> True)"

definition no_schedule :: "sim \<Rightarrow> bool" where
  "no_schedule s =
     (nextScheduledIncrementDate s = None \<and> regular (incrementAnalysis s) = 0
      \<and> accountTest (incrementAnalysis s) = 0)"

text \<open>
  A stage \<open>q\<close> of a row of the pay matrix fits an amount \<open>m\<close>: it is the least stage at or
  above \<open>m\<close>, or the greatest stage if there is none.
\<close>

definition fitted :: "int list \<Rightarrow> int \<Rightarrow> int \<Rightarrow> bool" where
  "fitted row m q =
     (q \<in> set row
      \<and> (if \<exists>p\<in>set row. m \<le> p then m \<le> q \<and> (\<forall>p\<in>set row. m \<le> p \<longrightarrow> q \<le> p)
         else (\<forall>p\<in>set row. p \<le> q)))"



text \<open>
  The DA look-up as the specification words it (not a translation of the code): the
  rate of the most recent table entry dated on or before the given date whose commission
  matches.
\<close>

definition spec_da_lookup :: "tables \<Rightarrow> nat \<Rightarrow> date \<Rightarrow> int option" where
  "spec_da_lookup T c d =
     (case filter (\<lambda>da. da_date da \<le> d \<and> da_matches c da) (sort_key da_date (DA_RATES T)) of
        [] \<Rightarrow> None
      | x # xs \<Rightarrow> Some (da_rate (last (x # xs))))"

text \<open>
  The commission after the events of the month \<open>k\<close> (a month count) when it was \<open>c\<close>
  before them: the transition dated in that month applies if \<open>c\<close> is the commission before it.
  \<open>joining_commission\<close> is the commission at the date of joining (part 2 of the source).
\<close>

definition month_commission :: "int \<Rightarrow> nat \<Rightarrow> nat" where
  "month_commission k c =
     (if k = 12 * 1986 \<and> c = 3 then 4
      else if k = 12 * 1996 \<and> c = 4 then 5
      else if k = 12 * 2006 \<and> c = 5 then 6
      else if k = 12 * 2016 \<and> c = 6 then 7
      else c)"

definition joining_commission :: "date \<Rightarrow> nat" where
  "joining_commission doj =
     (if doj < mkDate 1986 1 1 then 3
      else if doj < mkDate 1996 1 1 then 4
      else if doj < mkDate 2006 1 1 then 5
      else if doj < mkDate 2016 1 1 then 6
      else 7)"

text \<open>
  The DA rate after the events of the month of \<open>d\<close>, when commission and rate were \<open>c\<close>
  and \<open>r\<close> before them and no override is given: the rate of the last table entry dated in
  that month that matches \<open>c\<close>, else \<open>r\<close>.
\<close>

definition month_rate :: "tables \<Rightarrow> date \<Rightarrow> nat \<Rightarrow> int \<Rightarrow> int" where
  "month_rate T d c r =
     (case filter (da_matches c) (month_das T d) of
        [] \<Rightarrow> r
      | x # xs \<Rightarrow> da_rate (last (x # xs)))"

text \<open>
  The commission and the DA rate carried along the dates the loop visits, from the date \<open>d\<close>
  through the last visited date whose month is at most \<open>m\<close>. The dates are those of the loop:
  each is the \<^verbatim>\<open>setUTCMonth(getUTCMonth() + 1)\<close> of the one before, which keeps the day of the
  month and so steps over a month when that day does not exist in it. \<open>da_rate_at T doj m\<close>
  is the rate so reached from the date of joining, where the rate is 0; it reads the table
  entries of the visited months only.
\<close>

function da_walk :: "tables \<Rightarrow> int \<Rightarrow> date \<Rightarrow> nat \<times> int \<Rightarrow> nat \<times> int" where
  "da_walk T m d cr =
     (if fst d \<le> m
      then da_walk T m (next_month d)
             (month_commission (fst d) (fst cr), month_rate T d (fst cr) (snd cr))
      else cr)"
  by pat_completeness auto

termination
proof (relation "measure (\<lambda>(T, m, d, cr). nat (m + 1 - fst d))")
  show "wf (measure (\<lambda>(T, m, d, cr). nat (m + 1 - fst d)))" by simp
next
  fix T :: tables and m :: int and d :: date and cr :: "nat \<times> int"
  assume "fst d \<le> m"
  with next_month_later [of d]
  show "((T, m, next_month d,
          month_commission (fst d) (fst cr), month_rate T d (fst cr) (snd cr)), T, m, d, cr)
        \<in> measure (\<lambda>(T, m, d, cr). nat (m + 1 - fst d))"
    by simp
qed

declare da_walk.simps [simp del]

definition da_rate_at :: "tables \<Rightarrow> date \<Rightarrow> int \<Rightarrow> int" where
  "da_rate_at T doj m = snd (da_walk T m doj (joining_commission doj, 0))"

text \<open>
  The commission after one event.
\<close>

definition commission_after :: "event \<Rightarrow> nat \<Rightarrow> nat" where
  "commission_after e c =
     (case ev_type e of
        PAY_COMMISSION_4 \<Rightarrow> if c = 3 then 4 else c
      | PAY_COMMISSION_5 \<Rightarrow> if c = 4 then 5 else c
      | PAY_COMMISSION_6 \<Rightarrow> if c = 5 then 6 else c
      | PAY_COMMISSION_7 \<Rightarrow> if c = 6 then 7 else c
      | _ \<Rightarrow> c)"

text \<open>
  The loop invariant for the DA rate.
\<close>

definition da_inv :: "tables \<Rightarrow> date \<Rightarrow> date \<Rightarrow> sim \<Rightarrow> bool" where
  "da_inv T doj d s =
     (fst doj \<le> fst d
      \<and> (\<forall>m\<ge>fst d. da_walk T m doj (joining_commission doj, 0)
                      = da_walk T m d (currentCommission s, currentDaRate s))
      \<and> (\<forall>p\<in>set (series (yearlyCalculationsMap s)).
            fst doj \<le> month_of p \<and> month_of p < fst d
            \<and> daRate p = da_rate_at T doj (month_of p)))"

section \<open>Sample tables and employees\<close>

text \<open>
  A small set of tables (two levels of the pay matrix, one 6th commission scale, the DA
  entries from July 2015 to January 2019) and four employees: one who joins in January 2019
  on level 7, one who joins in August 2018, one who joins in July 2015 in the 6th commission
  and crosses into the 7th, and one with a break in service. The records named
  \<open>period_\<close>, \<open>result_\<close> and \<open>state_\<close> are what the engine computes for them.
\<close>

definition sample_rates :: "string \<Rightarrow> int option" where
  "sample_rates = map_of [(''Grade I(a)'', 1300), (''Grade I(b)'', 700), (''Grade II'', 500),
                          (''Unclassified'', 200)]"

definition sample_tables :: tables where
  "sample_tables =
     \<lparr>PAY_MATRIX = map_of
        [(7, [19000, 19600, 20200, 20800]),
         (8, [19500, 20100, 20700, 21300, 21900, 22600, 23300, 24000, 24700, 25400, 26200,
              27000, 27800, 28600, 29500, 30400, 31300, 32200, 33200, 34200, 35200, 36300])],
      GRADE_PAY_TO_LEVEL = map_of [(4200, 8)],
      DA_RATES =
        [\<lparr>da_date = mkDate 2015 7 1, da_commission = 6, da_rate = 119\<rparr>,
         \<lparr>da_date = mkDate 2016 1 1, da_commission = 7, da_rate = 0\<rparr>,
         \<lparr>da_date = mkDate 2016 7 1, da_commission = 7, da_rate = 2\<rparr>,
         \<lparr>da_date = mkDate 2017 1 1, da_commission = 7, da_rate = 4\<rparr>,
         \<lparr>da_date = mkDate 2017 7 1, da_commission = 7, da_rate = 5\<rparr>,
         \<lparr>da_date = mkDate 2018 1 1, da_commission = 7, da_rate = 7\<rparr>,
         \<lparr>da_date = mkDate 2018 7 1, da_commission = 7, da_rate = 9\<rparr>,
         \<lparr>da_date = mkDate 2019 1 1, da_commission = 7, da_rate = 12\<rparr>],
      HRA_SLABS_7TH_PC = [\<lparr>payRange = (0, 1000000), rates = sample_rates\<rparr>],
      HRA_SLABS_6TH_PC = [\<lparr>payRange = (0, 1000000), rates = sample_rates\<rparr>],
      HRA_SLABS_6TH_PC_PRE_2009 = [], HRA_SLABS_5TH_PC = [], HRA_SLABS_4TH_PC = [],
      HRA_SLABS_3RD_PC = [],
      PAY_SCALES_6TH_PC =
        [\<lparr>ps_id = ''PB2-4200'', ps_scale = ''5000-150-8000'', ps_gradePay = 4200\<rparr>],
      PAY_SCALES_5TH_PC = [], PAY_SCALES_4TH_PC = [], PAY_SCALES_3RD_PC = [],
      PAY_REVISIONS_2010 = [],
      CCA_RATES = map_of [(ClassA, 600), (ClassB, 300)],
      FIFTH_PC_SG_SP_GRADE_MAPPING = (\<lambda>s. None),
      PAY_BAND_LIMITS_6TH_PC = map_of [(4200, \<lparr>pb_min = 9300, pb_max = 34800\<rparr>)]\<rparr>"

definition entrant_2019 :: EmployeeInput where
  "entrant_2019 =
     \<lparr>dateOfBirth = Some (mkDate 1990 5 20), dateOfJoining = Some (mkDate 2019 1 1),
      dateOfJoiningInOffice = Some (mkDate 2019 1 1), dateOfRelief = None,
      annualIncrementChanges =
        [\<lparr>effectiveDate_c = Some (mkDate 2019 1 1), incrementMonth = jul\<rparr>],
      joiningBasicPay3rdPC = None, joiningScaleId3rdPC = [],
      joiningBasicPay4thPC = None, joiningScaleId4thPC = [],
      joiningBasicPay5thPC = None, joiningScaleId5thPC = [],
      joiningPayInPayBand = None, joiningScaleId6thPC = [],
      joiningLevel = ''7'',
      selectionGradeDate = None, selectionGradeTwoIncrements = False,
      specialGradeDate = None, specialGradeTwoIncrements = False,
      promotions = [], breaksInService = [], accountTestPasses = [],
      incrementEligibilityMonths = Some 6, cityClass = ClassA, daOverride = None,
      calculationStartDate = Some (mkDate 2019 6 1), calculationEndDate = Some (mkDate 2019 7 1),
      medicalAllowance_in = 300, cpsGpfContributionRate = 10, professionalTax = 0,
      gisContribution = 60,
      probationPeriodType = TwoYears, probationPeriodMonths = None,
      probationStartDate = Some (mkDate 2019 1 1),
      hasTestRequirement = False, testStatus = None, testPassedDate = None\<rparr>"

definition entrant_2018 :: EmployeeInput where
  "entrant_2018 =
     entrant_2019\<lparr>dateOfJoining := Some (mkDate 2018 8 1),
       dateOfJoiningInOffice := Some (mkDate 2018 8 1), annualIncrementChanges := [],
       calculationStartDate := Some (mkDate 2018 8 1),
       calculationEndDate := Some (mkDate 2018 8 1),
       probationStartDate := Some (mkDate 2018 8 1)\<rparr>"

definition joiner_2015 :: EmployeeInput where
  "joiner_2015 =
     entrant_2019\<lparr>dateOfJoining := Some (mkDate 2015 7 1),
       dateOfJoiningInOffice := Some (mkDate 2015 7 1), annualIncrementChanges := [],
       joiningPayInPayBand := Some 9300, joiningScaleId6thPC := ''PB2-4200'', joiningLevel := [],
       calculationStartDate := Some (mkDate 2015 12 1),
       calculationEndDate := Some (mkDate 2016 1 1),
       probationStartDate := Some (mkDate 2015 7 1)\<rparr>"

definition period_2015_12 :: PayrollPeriod where
  "period_2015_12 =
     \<lparr>period = (11, 2015), basicPay = 13500, daRate = 119, daAmount = 16065, hra = 1300,
      cca = 600, medicalAllowance = 300, grossPay = 31765,
      deductions = [\<lparr>ded_name = ''CPS/GPF'', amount = 2957\<rparr>,
                    \<lparr>ded_name = ''GIS'', amount = 60\<rparr>],
      totalDeductions = 3017, netPay = 28748, remarks = [], commission = 6,
      payInPayBand = Some 9300, gradePay = Some 4200\<rparr>"

definition period_2016_01 :: PayrollPeriod where
  "period_2016_01 =
     \<lparr>period = (0, 2016), basicPay = 35200, daRate = 119, daAmount = 41888, hra = 1300,
      cca = 0, medicalAllowance = 300, grossPay = 78688,
      deductions = [\<lparr>ded_name = ''CPS/GPF'', amount = 7709\<rparr>,
                    \<lparr>ded_name = ''GIS'', amount = 60\<rparr>],
      totalDeductions = 7769, netPay = 70919, remarks = [PayFixed 7, CCA_abolished],
      commission = 7, payInPayBand = None, gradePay = None\<rparr>"

definition result_2015 :: PayrollResult where
  "result_2015 =
     \<lparr>res_fixation4thPC = None, res_fixation5thPC = None, res_fixation6thPC = None,
      res_fixation7thPC =
        Some \<lparr>oldBasicPay = 13500, multipliedPay = 34695, initialRevisedPay = 35200,
              level = 8\<rparr>,
      yearlyCalculations =
        [\<lparr>year = 2015, periods = [period_2015_12]\<rparr>,
         \<lparr>year = 2016, periods = [period_2016_01]\<rparr>],
      res_incrementAnalysis = empty_analysis\<rparr>"

definition period_2019_06 :: PayrollPeriod where
  "period_2019_06 =
     \<lparr>period = (5, 2019), basicPay = 19000, daRate = 12, daAmount = 2280, hra = 1300,
      cca = 0, medicalAllowance = 300, grossPay = 22880,
      deductions = [\<lparr>ded_name = ''CPS/GPF'', amount = 2128\<rparr>,
                    \<lparr>ded_name = ''GIS'', amount = 60\<rparr>],
      totalDeductions = 2188, netPay = 20692, remarks = [], commission = 7,
      payInPayBand = None, gradePay = None\<rparr>"

definition period_2019_07 :: PayrollPeriod where
  "period_2019_07 =
     \<lparr>period = (6, 2019), basicPay = 19600, daRate = 12, daAmount = 2352, hra = 1300,
      cca = 0, medicalAllowance = 300, grossPay = 23552,
      deductions = [\<lparr>ded_name = ''CPS/GPF'', amount = 2195\<rparr>,
                    \<lparr>ded_name = ''GIS'', amount = 60\<rparr>],
      totalDeductions = 2255, netPay = 21297,
      remarks = [AnnualIncrementApplied 1 NoTestRequirement], commission = 7,
      payInPayBand = None, gradePay = None\<rparr>"


definition result_2019 :: PayrollResult where
  "result_2019 =
     \<lparr>res_fixation4thPC = None, res_fixation5thPC = None, res_fixation6thPC = None,
      res_fixation7thPC = None,
      yearlyCalculations = [\<lparr>year = 2019, periods = [period_2019_06, period_2019_07]\<rparr>],
      res_incrementAnalysis =
        \<lparr>regular = 1, selectionGrade = 0, specialGrade = 0, promotion = 0, accountTest = 0,
         total = 1\<rparr>\<rparr>"

definition period_2018_08 :: PayrollPeriod where
  "period_2018_08 =
     \<lparr>period = (7, 2018), basicPay = 19000, daRate = 0, daAmount = 0, hra = 1300,
      cca = 0, medicalAllowance = 300, grossPay = 20600,
      deductions = [\<lparr>ded_name = ''CPS/GPF'', amount = 1900\<rparr>,
                    \<lparr>ded_name = ''GIS'', amount = 60\<rparr>],
      totalDeductions = 1960, netPay = 18640, remarks = [], commission = 7,
      payInPayBand = None, gradePay = None\<rparr>"

definition result_2018 :: PayrollResult where
  "result_2018 =
     \<lparr>res_fixation4thPC = None, res_fixation5thPC = None, res_fixation6thPC = None,
      res_fixation7thPC = None,
      yearlyCalculations = [\<lparr>year = 2018, periods = [period_2018_08]\<rparr>],
      res_incrementAnalysis = empty_analysis\<rparr>"

definition state_2015 :: sim where
  "state_2015 =
     (start_state None)\<lparr>currentPay := 13500, currentCommission := 6, currentPipb := Some 9300,
       currentGradePay := Some 4200, currentDaRate := 119\<rparr>"

definition state_2016 :: sim where
  "state_2016 =
     state_2015\<lparr>currentLevel := 8, currentPay := 35200, currentPipb := None,
       currentGradePay := None, currentCommission := 7,
       fixation7thPC := Some \<lparr>oldBasicPay = 13500, multipliedPay = 34695,
         initialRevisedPay = 35200, level = 8\<rparr>,
       month_remarks := [PayFixed 7, CCA_abolished]\<rparr>"

definition state_2019 :: sim where
  "state_2019 =
     (start_state (Some (mkDate 2019 7 1)))\<lparr>currentPay := 19000, currentCommission := 7,
       currentLevel := 7\<rparr>"

definition state_2018 :: sim where
  "state_2018 =
     (start_state None)\<lparr>currentPay := 19000, currentCommission := 7, currentLevel := 7\<rparr>"

definition blank_schedule :: EmployeeInput where
  "blank_schedule =
     entrant_2018\<lparr>annualIncrementChanges :=
       [\<lparr>effectiveDate_c = None, incrementMonth = jul\<rparr>]\<rparr>"



definition row_8 :: "int list" where
  "row_8 = [19500, 20100, 20700, 21300, 21900, 22600, 23300, 24000, 24700, 25400, 26200,
            27000, 27800, 28600, 29500, 30400, 31300, 32200, 33200, 34200, 35200, 36300]"

definition state_2019_02 :: sim where
  "state_2019_02 =
     state_2019\<lparr>currentDaRate := 12,
       yearlyCalculationsMap :=
         [\<lparr>year = 2019,
            periods = [\<lparr>period = (0, 2019), basicPay = 19000, daRate = 12, daAmount = 2280,
              hra = 1300, cca = 0, medicalAllowance = 300, grossPay = 22880,
              deductions = [\<lparr>ded_name = ''CPS/GPF'', amount = 2128\<rparr>,
                            \<lparr>ded_name = ''GIS'', amount = 60\<rparr>],
              totalDeductions = 2188, netPay = 20692, remarks = [], commission = 7,
              payInPayBand = None, gradePay = None\<rparr>]\<rparr>]\<rparr>"

definition state_2019_07 :: sim where
  "state_2019_07 =
     state_2019\<lparr>currentPay := 19600,
       incrementAnalysis := empty_analysis\<lparr>regular := 1, total := 1\<rparr>,
       incrementsGranted := 1, nextScheduledIncrementDate := Some (mkDate 2020 7 1),
       month_remarks := [AnnualIncrementApplied 1 NoTestRequirement],
       didIncrementThisMonth := True\<rparr>"

definition commission_7_event :: event where
  "commission_7_event = \<lparr>ev_date = mkDate 2016 1 1, ev_type = PAY_COMMISSION_7, priority = 2\<rparr>"


definition state_23050 :: sim where
  "state_23050 = state_2015\<lparr>currentPay := 23050, currentPipb := Some 18850\<rparr>"

definition state_59238 :: sim where
  "state_59238 =
     state_23050\<lparr>currentLevel := 8, currentPay := 36300, currentPipb := None,
       currentGradePay := None, currentCommission := 7,
       fixation7thPC := Some \<lparr>oldBasicPay = 23050, multipliedPay = 59238,
         initialRevisedPay = 36300, level = 8\<rparr>,
       month_remarks := [PayFixed 7, CCA_abolished]\<rparr>"

section \<open>Properties of the engine\<close>

subsection \<open>Results of fallible steps; the events of a month\<close>

lemma bnd_Inr_iff [simp]:
  "(bnd m f = Some (Inr y)) = (\<exists>x. m = Some (Inr x) \<and> f x = Some (Inr y))"
  by (auto simp: bnd_def split: option.splits sum.splits)

lemma ok_Inr_iff [simp]: "(ok x = Some (Inr y)) = (x = y)"
  by (simp add: ok_def)

lemma throw_not_Inr [simp]: "throw e \<noteq> Some (Inr y)"
  by (simp add: throw_def)

lemma res_allI: "(\<And>x. m = Some (Inr x) \<Longrightarrow> Q x) \<Longrightarrow> res_all Q m"
  by (simp add: res_all_def)

lemma res_allD: "res_all Q m \<Longrightarrow> m = Some (Inr x) \<Longrightarrow> Q x"
  by (simp add: res_all_def)

lemma res_all_ok [simp]: "res_all Q (ok x) = Q x"
  by (simp add: res_all_def)

lemma res_all_throw [simp]: "res_all Q (throw e)"
  by (simp add: res_all_def)

lemma res_all_None [simp]: "res_all Q None"
  by (simp add: res_all_def)

lemma res_all_bnd [simp]: "res_all Q (bnd m f) = res_all (\<lambda>x. res_all Q (f x)) m"
  by (auto simp: res_all_def)

lemma res_all_mono: "res_all P m \<Longrightarrow> (\<And>x. P x \<Longrightarrow> Q x) \<Longrightarrow> res_all Q m"
  by (simp add: res_all_def)

lemma ev_frame_refl [simp]: "ev_frame s s"
  by (simp add: ev_frame_def)

lemma ev_frame_trans: "ev_frame s t \<Longrightarrow> ev_frame t u \<Longrightarrow> ev_frame s u"
  by (auto simp: ev_frame_def)

lemma fix_4th_frame: "currentCommission s = 3 \<Longrightarrow> res_all (ev_frame s) (fix_4th T s)"
  by (simp add: fix_4th_def ev_frame_def add_remark_def Let_def split: option.split)

lemma fix_5th_frame: "currentCommission s = 4 \<Longrightarrow> res_all (ev_frame s) (fix_5th T s)"
  by (simp add: fix_5th_def ev_frame_def add_remark_def Let_def split: option.split)

lemma fix_6th_frame: "currentCommission s = 5 \<Longrightarrow> res_all (ev_frame s) (fix_6th T s)"
  by (simp add: fix_6th_def ev_frame_def add_remark_def Let_def split: option.split)

lemma fix_7th_frame: "currentCommission s = 6 \<Longrightarrow> res_all (ev_frame s) (fix_7th T s)"
  by (auto simp: fix_7th_def ev_frame_def add_remark_def Let_def split: option.split
           intro!: res_allI)

lemma da_change_frame: "ev_frame s (da_change data da s)"
  by (auto simp: da_change_def ev_frame_def add_remark_def Let_def)

lemma grade_pay_change_frame: "res_all (ev_frame s) (grade_pay_change T b f s)"
  by (auto simp: grade_pay_change_def ev_frame_def add_remark_def set_pay_def Let_def
           split: option.split intro!: res_allI)

lemma count_grade_balanced: "balanced ia \<Longrightarrow> balanced (count_grade b ia)"
  by (simp add: balanced_def count_grade_def)

lemma count_grade_same:
  "regular (count_grade b ia) = regular ia" "accountTest (count_grade b ia) = accountTest ia"
  by (simp_all add: count_grade_def)

lemma grade_event_frame: "res_all (ev_frame s) (grade_event T b f s)"
proof -
  have "res_all (\<lambda>s1. ev_frame s (s1\<lparr>didIncrementThisMonth := True,
           incrementAnalysis := count_grade b (incrementAnalysis s1)\<rparr>))
          (grade_pay_change T b f s)"
    by (rule res_all_mono [OF grade_pay_change_frame])
       (simp add: ev_frame_def count_grade_balanced count_grade_same)
  then show ?thesis by (simp add: grade_event_def)
qed

lemma promotion_event_frame: "res_all (ev_frame s) (promotion_event T p s)"
  by (auto simp: promotion_event_def ev_frame_def add_remark_def Let_def count_promotion_def
                 balanced_def
           split: option.split intro!: res_allI)

lemma apply_event_frame: "res_all (ev_frame s) (apply_event T data e s)"
  by (simp add: apply_event_def fix_4th_frame fix_5th_frame fix_6th_frame
                 fix_7th_frame da_change_frame grade_event_frame promotion_event_frame
           split: event_type.split)
     (simp add: ev_frame_def add_remark_def)

lemma process_events_frame: "res_all (ev_frame s) (process_events T data es s)"
proof (induction es arbitrary: s)
  case Nil
  then show ?case by simp
next
  case (Cons e es)
  have "res_all (\<lambda>s1. res_all (ev_frame s) (process_events T data es s1)) (apply_event T data e s)"
  proof (rule res_all_mono [OF apply_event_frame])
    fix s1 assume "ev_frame s s1"
    with Cons.IH [of s1] show "res_all (ev_frame s) (process_events T data es s1)"
      by (blast intro: res_all_mono ev_frame_trans)
  qed
  then show ?case by simp
qed

subsection \<open>Years and periods; the annual increment\<close>

lemma set_series_push: "set (series (push_year y p m)) = insert p (set (series m))"
  by (induction m) (auto simp: series_def)

lemma series_push: "years_ok y m \<Longrightarrow> series (push_year y p m) = series m @ [p]"
proof (induction m)
  case Nil
  then show ?case by (simp add: series_def)
next
  case (Cons g gs)
  show ?case
  proof (cases "year g = y")
    case True
    with Cons.prems have "gs = []"
      by (cases gs) (auto simp: years_ok_def)
    with True show ?thesis by (simp add: series_def)
  next
    case False
    from Cons.prems have "years_ok y gs" by (auto simp: years_ok_def)
    with Cons.IH False show ?thesis by (simp add: series_def)
  qed
qed

lemma year_push: "year ` set (push_year y p m) = insert y (year ` set m)"
  by (induction m) auto

lemma years_ok_push: "years_ok y m \<Longrightarrow> years_ok y (push_year y p m)"
proof (induction m)
  case Nil
  then show ?case by (simp add: years_ok_def)
next
  case (Cons g gs)
  show ?case
  proof (cases "year g = y")
    case True
    with Cons.prems show ?thesis by (auto simp: years_ok_def)
  next
    case False
    from Cons.prems have ok: "years_ok y gs" and lt: "\<forall>h\<in>set gs. year g < year h"
      and le: "year g \<le> y"
      by (auto simp: years_ok_def)
    from Cons.IH [OF ok] have IH: "years_ok y (push_year y p gs)" .
    have "\<forall>h\<in>set (push_year y p gs). year g < year h"
    proof
      fix h assume "h \<in> set (push_year y p gs)"
      then have "year h \<in> year ` set (push_year y p gs)" by simp
      then have "year h = y \<or> year h \<in> year ` set gs" by (simp add: year_push)
      with lt le False show "year g < year h" by auto
    qed
    with IH le False show ?thesis by (auto simp: years_ok_def)
  qed
qed

lemma years_ok_mono: "years_ok y m \<Longrightarrow> y \<le> y' \<Longrightarrow> years_ok y' m"
  by (fastforce simp: years_ok_def)

lemma year_next_month: "getUTCFullYear d \<le> getUTCFullYear (next_month d)"
  using next_month_later [of d] by (simp add: getUTCFullYear_def zdiv_mono1)

lemma one_increment_frame:
  "res_all (\<lambda>s'. s' = s\<lparr>currentPay := currentPay s', currentPipb := currentPipb s'\<rparr>) (one_increment T s)"
  by (auto simp: one_increment_def set_pay_def split: option.split intro!: res_allI)

lemma account_test_increment_frame:
  "res_all (\<lambda>s'. currentCommission s' = currentCommission s
        \<and> yearlyCalculationsMap s' = yearlyCalculationsMap s
        \<and> currentDaRate s' = currentDaRate s
        \<and> (balanced (incrementAnalysis s) \<longrightarrow> balanced (incrementAnalysis s')))
     (account_test_increment T s)"
  unfolding account_test_increment_def
  apply (simp add: add_remark_def)
  apply (rule impI)
  apply (rule res_all_mono [OF one_increment_frame])
  apply (erule ssubst)
  apply (simp add: balanced_def count_accountTest_def)
  done

lemma one_increment_keeps: "res_all (keeps s) (one_increment T s)"
  by (rule res_all_mono [OF one_increment_frame], erule ssubst) (simp add: keeps_def)

lemma account_test_increment_keeps: "res_all (keeps s) (account_test_increment T s)"
  by (rule res_all_mono [OF account_test_increment_frame]) (simp add: keeps_def)

lemma keeps_trans: "keeps s t \<Longrightarrow> keeps t u \<Longrightarrow> keeps s u"
  by (simp add: keeps_def)

lemma grant_increment_keeps:
  "res_all (keeps s) (grant_increment T changes d scheduled el s)"
proof -
  have "res_all (\<lambda>s1. res_all (\<lambda>s2. res_all (\<lambda>nextDate.
            keeps s (s2\<lparr>didIncrementThisMonth := True,
                        nextScheduledIncrementDate := Some nextDate\<rparr>))
            (next_increment_date changes d scheduled))
          (account_test_increment T
             ((add_remark (AnnualIncrementApplied (incrementsGranted s + 1) (elig_remarks el)) s1)
                \<lparr>incrementsGranted := incrementsGranted s + 1,
                 incrementAnalysis := count_regular (incrementAnalysis s1)\<rparr>)))
        (one_increment T s)"
  proof (rule res_all_mono [OF one_increment_keeps])
    fix s1 assume k1: "keeps s s1"
    let ?t = "(add_remark (AnnualIncrementApplied (incrementsGranted s + 1) (elig_remarks el)) s1)
                \<lparr>incrementsGranted := incrementsGranted s + 1,
                 incrementAnalysis := count_regular (incrementAnalysis s1)\<rparr>"
    from k1 have k2: "keeps s ?t"
      by (simp add: keeps_def add_remark_def count_regular_def balanced_def)
    show "res_all (\<lambda>s2. res_all (\<lambda>nextDate.
            keeps s (s2\<lparr>didIncrementThisMonth := True,
                        nextScheduledIncrementDate := Some nextDate\<rparr>))
            (next_increment_date changes d scheduled))
          (account_test_increment T ?t)"
    proof (rule res_all_mono [OF account_test_increment_keeps])
      fix s2 assume "keeps ?t s2"
      with k2 have "keeps s s2" by (rule keeps_trans)
      then show "res_all (\<lambda>nextDate.
            keeps s (s2\<lparr>didIncrementThisMonth := True,
                        nextScheduledIncrementDate := Some nextDate\<rparr>))
            (next_increment_date changes d scheduled)"
        by (simp add: res_all_def keeps_def)
    qed
  qed
  then show ?thesis by (simp add: grant_increment_def)
qed

lemma annual_increment_keeps: "res_all (keeps s) (annual_increment T data changes d s)"
  by (simp add: annual_increment_def grant_increment_keeps split: option.split sum.split)
     (simp add: keeps_def add_remark_def)

lemma annual_increment_None:
  "nextScheduledIncrementDate s = None \<Longrightarrow> annual_increment T data changes d s = ok s"
  by (simp add: annual_increment_def)

lemma month_step_elim:
  assumes "month_step T data evs ch cs d s = Some (Inr s')"
  obtains s1 s2 where
    "process_events T data (monthEvents evs d)
       (s\<lparr>month_remarks := [], didIncrementThisMonth := False\<rparr>) = Some (Inr s1)"
    "annual_increment T data ch d s1 = Some (Inr s2)"
    "s' = store_month T data cs d s2"
  using assms by (auto simp: month_step_def)

subsection \<open>The loop invariant rule; commissions\<close>

lemma sim_loop_inv:
  "sim_loop T data evs ch cs ce d s = Some (Inr s') \<Longrightarrow> I d s \<Longrightarrow>
   (\<And>d s s1. I d s \<Longrightarrow> d \<le> ce \<Longrightarrow> month_step T data evs ch cs d s = Some (Inr s1)
      \<Longrightarrow> I (next_month d) s1) \<Longrightarrow>
   I (stop_date ce d) s'"
proof (induction T data evs ch cs ce d s rule: sim_loop.induct)
  case (1 T data evs ch cs ce d s)
  show ?case
  proof (cases "d \<le> ce")
    case True
    from "1.prems"(1) True obtain s1 where
      ms: "month_step T data evs ch cs d s = Some (Inr s1)" and
      rest: "sim_loop T data evs ch cs ce (next_month d) s1 = Some (Inr s')"
      by (subst (asm) sim_loop.simps) auto
    have "I (next_month d) s1" using "1.prems"(3) [OF "1.prems"(2) True ms] .
    then have "I (stop_date ce (next_month d)) s'"
    proof (rule "1.IH" [OF True rest])
      fix d0 t t1
      assume "I d0 t" "d0 \<le> ce" "month_step T data evs ch cs d0 t = Some (Inr t1)"
      then show "I (next_month d0) t1" by (rule "1.prems"(3))
    qed
    with True show ?thesis by (subst stop_date.simps) simp
  next
    case False
    with "1.prems"(1) have "s' = s" by (subst (asm) sim_loop.simps) simp
    with False "1.prems"(2) show ?thesis by (subst stop_date.simps) simp
  qed
qed

lemma month_step_facts:
  assumes "month_step T data evs ch cs d s = Some (Inr s')"
  obtains s2 where
    "currentCommission s \<le> currentCommission s2"
    "yearlyCalculationsMap s2 = yearlyCalculationsMap s"
    "balanced (incrementAnalysis s) \<longrightarrow> balanced (incrementAnalysis s2)"
    "s' = store_month T data cs d s2"
proof -
  from assms obtain s1 s2 where
    pe: "process_events T data (monthEvents evs d)
           (s\<lparr>month_remarks := [], didIncrementThisMonth := False\<rparr>) = Some (Inr s1)" and
    ai: "annual_increment T data ch d s1 = Some (Inr s2)" and
    st: "s' = store_month T data cs d s2"
    by (rule month_step_elim)
  from res_allD [OF process_events_frame pe]
  have f1: "ev_frame (s\<lparr>month_remarks := [], didIncrementThisMonth := False\<rparr>) s1" .
  from res_allD [OF annual_increment_keeps ai] have f2: "keeps s1 s2" .
  from f1 f2 have "currentCommission s \<le> currentCommission s2"
    "yearlyCalculationsMap s2 = yearlyCalculationsMap s"
    "balanced (incrementAnalysis s) \<longrightarrow> balanced (incrementAnalysis s2)"
    by (simp_all add: ev_frame_def keeps_def)
  with st that show thesis by blast
qed

lemma store_month_simps:
  "currentCommission (store_month T data cs d s) = currentCommission s"
  "incrementAnalysis (store_month T data cs d s) = incrementAnalysis s"
  "nextScheduledIncrementDate (store_month T data cs d s) = nextScheduledIncrementDate s"
  "currentDaRate (store_month T data cs d s) = currentDaRate s"
  "currentPay (store_month T data cs d s) = currentPay s"
  by (simp_all add: store_month_def)

lemma commission_make_period [simp]:
  "commission (make_period T data d s) = currentCommission s"
  by (simp add: make_period_def Let_def)

lemma cinv_step:
  assumes "cinv d s" and ms: "month_step T data evs ch cs d s = Some (Inr s')"
  shows "cinv (next_month d) s'"
proof -
  from ms obtain s2 where
    c: "currentCommission s \<le> currentCommission s2" and
    m: "yearlyCalculationsMap s2 = yearlyCalculationsMap s" and
    st: "s' = store_month T data cs d s2"
    by (rule month_step_facts)
  from assms(1) have yo: "years_ok (getUTCFullYear d) (yearlyCalculationsMap s2)"
    and so: "sorted (map commission (series (yearlyCalculationsMap s2)))"
    and le: "\<forall>p\<in>set (series (yearlyCalculationsMap s2)). commission p \<le> currentCommission s2"
    using c m by (auto simp: cinv_def)
  show ?thesis
  proof (cases "cs \<le> d")
    case True
    let ?p = "make_period T data d s2"
    from True st have m': "yearlyCalculationsMap s' =
        push_year (getUTCFullYear d) ?p (yearlyCalculationsMap s2)"
      by (simp add: store_month_def)
    from series_push [OF yo] have ser: "series (yearlyCalculationsMap s') =
        series (yearlyCalculationsMap s2) @ [?p]" by (simp add: m')
    from years_ok_push [OF yo] have "years_ok (getUTCFullYear d) (yearlyCalculationsMap s')"
      by (simp add: m')
    then have "years_ok (getUTCFullYear (next_month d)) (yearlyCalculationsMap s')"
      by (rule years_ok_mono) (rule year_next_month)
    moreover from so le have "sorted (map commission (series (yearlyCalculationsMap s')))"
      by (auto simp: ser sorted_append)
    moreover have cc: "currentCommission s' = currentCommission s2"
      by (simp add: st store_month_simps)
    from le have "\<forall>p\<in>set (series (yearlyCalculationsMap s')).
        commission p \<le> currentCommission s'"
      by (auto simp: ser cc)
    ultimately show ?thesis by (simp add: cinv_def)
  next
    case False
    with st have "s' = s2" by (simp add: store_month_def)
    with yo so le years_ok_mono [OF yo year_next_month] show ?thesis by (simp add: cinv_def)
  qed
qed

lemma old_joining_frame:
  "res_all (\<lambda>s'. yearlyCalculationsMap s' = yearlyCalculationsMap s
      \<and> incrementAnalysis s' = incrementAnalysis s
      \<and> nextScheduledIncrementDate s' = nextScheduledIncrementDate s
      \<and> currentDaRate s' = currentDaRate s)
     (old_joining c scales pay scaleId ordinary s)"
  by (simp add: old_joining_def split: option.split)

lemma initial_fixation_frame:
  "res_all (\<lambda>s'. yearlyCalculationsMap s' = yearlyCalculationsMap s
      \<and> incrementAnalysis s' = incrementAnalysis s
      \<and> nextScheduledIncrementDate s' = nextScheduledIncrementDate s
      \<and> currentDaRate s' = currentDaRate s)
     (initial_fixation T data doj s)"
  unfolding initial_fixation_def
  by (simp only: old_joining_frame split: if_split option.split list.split)
     (simp add: old_joining_frame)

lemma initial_state_facts:
  assumes "initial_state T data doj = Some (Inr s0)"
  shows "yearlyCalculationsMap s0 = []" "incrementAnalysis s0 = empty_analysis"
    "currentDaRate s0 = 0"
    "nextScheduledIncrementDate s0 =
       firstScheduledIncrementDate doj (sortedIncrementChanges (annualIncrementChanges data))
         (incrementEligibilityMonths data) (totalBreakDays (breaksInService data))"
  using res_allD [OF initial_fixation_frame assms [unfolded initial_state_def]]
  by (simp_all add: start_state_def)

lemma calculateFullPayroll_elim:
  assumes "calculateFullPayroll T data = Some (Inr r)"
  obtains doj cs ce s0 s where
    "dateOfJoining data = Some doj" "calculationStartDate data = Some cs"
    "calculationEndDate data = Some ce"
    "initial_state T data doj = Some (Inr s0)"
    "sim_loop T data (build_events T data) (sortedIncrementChanges (annualIncrementChanges data))
       cs (effective_end data ce) doj s0 = Some (Inr s)"
    "finish data s = Some (Inr r)"
  using assms
  by (auto simp: calculateFullPayroll_def simulate_def split: option.split_asm if_split_asm)

lemma finish_facts:
  assumes "finish data s = Some (Inr r)"
  shows "yearlyCalculations r = yearlyCalculationsMap s"
    "res_incrementAnalysis r = incrementAnalysis s"
  using assms by (auto simp: finish_def split: if_split_asm)

subsection \<open>Splitting the loop at a date\<close>

lemma bnd_assoc: "bnd (bnd m f) g = bnd m (\<lambda>x. bnd (f x) g)"
  by (simp add: bnd_def split: option.split sum.split)

lemma bnd_ok_left: "bnd (ok x) f = f x"
  by (simp add: bnd_def ok_def)


lemma month_of_make_period [simp]: "month_of (make_period T data d s) = fst d"
  by (simp add: month_of_def make_period_def Let_def getUTCMonth_def getUTCFullYear_def)




subsection \<open>Independence of the end date\<close>













subsection \<open>DA changes come first in a month\<close>

lemma fix_4th_da: "res_all (\<lambda>s'. currentDaRate s' = currentDaRate s) (fix_4th T s)"
  by (simp add: fix_4th_def add_remark_def Let_def split: option.split)

lemma fix_5th_da: "res_all (\<lambda>s'. currentDaRate s' = currentDaRate s) (fix_5th T s)"
  by (simp add: fix_5th_def add_remark_def Let_def split: option.split)

lemma fix_6th_da: "res_all (\<lambda>s'. currentDaRate s' = currentDaRate s) (fix_6th T s)"
  by (simp add: fix_6th_def add_remark_def Let_def split: option.split)

lemma fix_7th_da: "res_all (\<lambda>s'. currentDaRate s' = currentDaRate s) (fix_7th T s)"
  by (auto simp: fix_7th_def add_remark_def Let_def split: option.split intro!: res_allI)

lemma grade_event_da: "res_all (\<lambda>s'. currentDaRate s' = currentDaRate s) (grade_event T b f s)"
  by (auto simp: grade_event_def grade_pay_change_def add_remark_def set_pay_def Let_def
           split: option.split intro!: res_allI)

lemma promotion_event_da:
  "res_all (\<lambda>s'. currentDaRate s' = currentDaRate s) (promotion_event T p s)"
  by (auto simp: promotion_event_def add_remark_def Let_def split: option.split intro!: res_allI)

lemma apply_event_da:
  "\<not> is_da e \<Longrightarrow> res_all (\<lambda>s'. currentDaRate s' = currentDaRate s) (apply_event T data e s)"
  by (cases "ev_type e")
     (simp_all add: apply_event_def is_da_def fix_4th_da fix_5th_da fix_6th_da fix_7th_da
        grade_event_da promotion_event_da add_remark_def)

lemma process_events_da:
  "\<forall>e\<in>set es. \<not> is_da e \<Longrightarrow>
   res_all (\<lambda>s'. currentDaRate s' = currentDaRate s) (process_events T data es s)"
proof (induction es arbitrary: s)
  case Nil
  then show ?case by simp
next
  case (Cons e es)
  have "res_all (\<lambda>s1. res_all (\<lambda>s'. currentDaRate s' = currentDaRate s)
          (process_events T data es s1)) (apply_event T data e s)"
  proof (rule res_all_mono [OF apply_event_da])
    from Cons.prems show "\<not> is_da e" by simp
  next
    fix s1 :: sim
    assume eq: "currentDaRate s1 = currentDaRate s"
    from Cons.prems have "\<forall>e\<in>set es. \<not> is_da e" by simp
    from Cons.IH [OF this, of s1] eq
    show "res_all (\<lambda>s'. currentDaRate s' = currentDaRate s) (process_events T data es s1)"
      by simp
  qed
  then show ?case by simp
qed

lemma process_events_append:
  "process_events T data (xs @ ys) s = bnd (process_events T data xs s) (process_events T data ys)"
proof (induction xs arbitrary: s)
  case Nil
  show ?case by (simp add: bnd_ok_left)
next
  case (Cons a xs)
  have "process_events T data (xs @ ys) =
      (\<lambda>x. bnd (process_events T data xs x) (process_events T data ys))"
    by (rule ext) (rule Cons.IH)
  then show ?case by (simp add: bnd_assoc)
qed

lemma process_da_events:
  "process_events T data (map da_event das) s = ok (foldl (\<lambda>s da. da_change data da s) s das)"
  by (induction das arbitrary: s) (simp_all add: apply_event_def da_event_def bnd_ok_left)

lemma da_change_fold:
  "currentCommission (foldl (\<lambda>s da. da_change data da s) s das) = currentCommission s
   \<and> currentDaRate (foldl (\<lambda>s da. da_change data da s) s das)
       = da_pick data (currentCommission s) (currentDaRate s) das"
proof (induction das arbitrary: s)
  case Nil
  show ?case by (simp add: da_pick_def)
next
  case (Cons da das)
  have c: "currentCommission (da_change data da s) = currentCommission s"
    by (simp add: da_change_def add_remark_def Let_def)
  have r: "currentDaRate (da_change data da s) =
      (if da_matches (currentCommission s) da
       then (case daOverride data of Some v \<Rightarrow> v | None \<Rightarrow> da_rate da)
       else currentDaRate s)"
    by (simp add: da_change_def da_matches_def add_remark_def Let_def)
  from Cons.IH [of "da_change data da s"] show ?case
    by (simp add: c r da_pick_def)
qed

lemma sorted_const: "\<forall>x\<in>set xs. f x = c \<Longrightarrow> sorted (map f xs)"
  by (induction xs) auto

lemma set_map_filter_iff: "y \<in> set (List.map_filter f xs) \<longleftrightarrow> (\<exists>x\<in>set xs. f x = Some y)"
  by (induction xs) (auto split: option.split)

lemma career_events_facts:
  "e \<in> set (career_events T data) \<Longrightarrow> priority e = 3 \<and> \<not> is_da e"
  by (auto simp: career_events_def is_da_def set_map_filter_iff split: option.split_asm)

lemma commission_events_facts:
  "e \<in> set commission_events \<Longrightarrow> priority e = 2 \<and> \<not> is_da e"
  by (auto simp: commission_events_def is_da_def)

lemma sorted_priority_build_events: "sorted (map priority (build_events T data))"
proof -
  have 1: "sorted (map priority (map da_event (DA_RATES T)))"
    by (rule sorted_const [where c = 1]) (simp add: da_event_def)
  have 2: "sorted (map priority commission_events)"
    by (rule sorted_const [where c = 2]) (simp add: commission_events_facts)
  have 3: "sorted (map priority (career_events T data))"
    by (rule sorted_const [where c = 3]) (simp add: career_events_facts)
  have 4: "\<forall>e\<in>set (map da_event (DA_RATES T)). priority e = 1"
    by (simp add: da_event_def)
  from 1 2 3 4 show ?thesis
    unfolding build_events_def
    by (auto simp: sorted_append dest!: commission_events_facts career_events_facts)
qed

lemma month_events_split:
  "\<exists>tl. monthEvents (build_events T data) d = map da_event (month_das T d) @ tl
      \<and> (\<forall>e\<in>set tl. \<not> is_da e)"
proof -
  let ?P = "\<lambda>e. getUTCFullYear (ev_date e) = getUTCFullYear d
                \<and> getUTCMonth (ev_date e) = getUTCMonth d"
  have "sorted (map priority (filter ?P (build_events T data)))"
    by (rule sorted_filter) (rule sorted_priority_build_events)
  then have me: "monthEvents (build_events T data) d = filter ?P (build_events T data)"
    unfolding monthEvents_def by (rule sort_key_id_if_sorted)
  have das: "filter ?P (map da_event (DA_RATES T)) = map da_event (month_das T d)"
    by (simp add: month_das_def same_month_def filter_map o_def da_event_def)
  define others where "others = commission_events @ career_events T data"
  have be: "build_events T data = map da_event (DA_RATES T) @ others"
    by (simp add: build_events_def others_def)
  have nd: "\<forall>e\<in>set others. \<not> is_da e"
    by (auto simp: others_def dest: commission_events_facts career_events_facts)
  from be das have "filter ?P (build_events T data) =
      map da_event (month_das T d) @ filter ?P others" by simp
  with me nd show ?thesis by auto
qed

lemma month_events_da_rate:
  assumes "process_events T data (monthEvents (build_events T data) d) s = Some (Inr s')"
  shows "currentDaRate s' = da_pick data (currentCommission s) (currentDaRate s) (month_das T d)"
proof -
  from month_events_split obtain tl where
    me: "monthEvents (build_events T data) d = map da_event (month_das T d) @ tl" and
    nd: "\<forall>e\<in>set tl. \<not> is_da e" by blast
  let ?s1 = "foldl (\<lambda>s da. da_change data da s) s (month_das T d)"
  from assms have "process_events T data tl ?s1 = Some (Inr s')"
    by (simp add: me process_events_append process_da_events bnd_ok_left)
  from res_allD [OF process_events_da [OF nd] this] have "currentDaRate s' = currentDaRate ?s1" .
  with da_change_fold [of data s "month_das T d"] show ?thesis by simp
qed

subsection \<open>Increment counters, sums of a period, inputs without schedule\<close>

lemma apply_event_balanced:
  "balanced (incrementAnalysis s) \<Longrightarrow> apply_event T data e s = Some (Inr s1)
   \<Longrightarrow> balanced (incrementAnalysis s1)"
  using res_allD [OF apply_event_frame] by (simp add: ev_frame_def)

lemma annual_increment_balanced:
  "balanced (incrementAnalysis s) \<Longrightarrow> annual_increment T data ch d s = Some (Inr s2)
   \<Longrightarrow> balanced (incrementAnalysis s2)"
  using res_allD [OF annual_increment_keeps] by (simp add: keeps_def)

lemma month_step_balanced:
  assumes "balanced (incrementAnalysis s)" "month_step T data evs ch cs d s = Some (Inr s3)"
  shows "balanced (incrementAnalysis s3)"
proof -
  from assms(2) obtain s2 where
    "balanced (incrementAnalysis s) \<longrightarrow> balanced (incrementAnalysis s2)"
    "s3 = store_month T data cs d s2"
    by (rule month_step_facts)
  with assms(1) show ?thesis by (simp add: store_month_simps)
qed

lemma initial_state_balanced:
  "initial_state T data doj = Some (Inr s0) \<Longrightarrow> balanced (incrementAnalysis s0)"
  by (simp add: initial_state_facts(2) empty_analysis_def balanced_def)

lemma run_balanced:
  assumes "calculateFullPayroll T data = Some (Inr r)"
  shows "balanced (res_incrementAnalysis r)"
proof -
  from assms obtain doj cs ce s0 s where
    init: "initial_state T data doj = Some (Inr s0)" and
    loop: "sim_loop T data (build_events T data)
             (sortedIncrementChanges (annualIncrementChanges data))
             cs (effective_end data ce) doj s0 = Some (Inr s)" and
    fin: "finish data s = Some (Inr r)"
    by (rule calculateFullPayroll_elim)
  have "(\<lambda>d s. balanced (incrementAnalysis s)) (stop_date (effective_end data ce) doj) s"
    using loop
  proof (rule sim_loop_inv)
    show "balanced (incrementAnalysis s0)" using init by (rule initial_state_balanced)
  next
    fix d t t1
    assume "balanced (incrementAnalysis t)"
      "month_step T data (build_events T data)
         (sortedIncrementChanges (annualIncrementChanges data)) cs d t = Some (Inr t1)"
    then show "balanced (incrementAnalysis t1)" by (rule month_step_balanced)
  qed
  with finish_facts(2) [OF fin] show ?thesis by simp
qed

lemma foldl_amount: "foldl (\<lambda>acc d. acc + amount d) a ds = a + sum_list (map amount ds)"
  by (induction ds arbitrary: a) simp_all

lemma make_period_sums: "period_sums data (make_period T data d s)"
  by (simp add: period_sums_def make_period_def Let_def foldl_amount deductions_of_def
        make_deductions_def)

lemma month_step_periods:
  assumes "month_step T data evs ch cs d s = Some (Inr s')"
    and "p \<in> set (series (yearlyCalculationsMap s'))"
  shows "p \<in> set (series (yearlyCalculationsMap s)) \<or> (\<exists>s2. p = make_period T data d s2)"
proof -
  from assms(1) obtain s2 where
    m: "yearlyCalculationsMap s2 = yearlyCalculationsMap s" and
    st: "s' = store_month T data cs d s2"
    by (rule month_step_facts)
  with assms(2) show ?thesis
    by (auto simp: store_month_def set_series_push split: if_split_asm)
qed

lemma run_period_sums:
  assumes "calculateFullPayroll T data = Some (Inr r)"
  shows "\<forall>p\<in>set (series (yearlyCalculations r)). period_sums data p"
proof -
  from assms obtain doj cs ce s0 s where
    init: "initial_state T data doj = Some (Inr s0)" and
    loop: "sim_loop T data (build_events T data)
             (sortedIncrementChanges (annualIncrementChanges data))
             cs (effective_end data ce) doj s0 = Some (Inr s)" and
    fin: "finish data s = Some (Inr r)"
    by (rule calculateFullPayroll_elim)
  have "(\<lambda>d s. \<forall>p\<in>set (series (yearlyCalculationsMap s)). period_sums data p)
          (stop_date (effective_end data ce) doj) s"
    using loop
  proof (rule sim_loop_inv)
    show "\<forall>p\<in>set (series (yearlyCalculationsMap s0)). period_sums data p"
      using initial_state_facts(1) [OF init] by (simp add: series_def)
  next
    fix d t t1
    assume "\<forall>p\<in>set (series (yearlyCalculationsMap t)). period_sums data p"
      "month_step T data (build_events T data)
         (sortedIncrementChanges (annualIncrementChanges data)) cs d t = Some (Inr t1)"
    then show "\<forall>p\<in>set (series (yearlyCalculationsMap t1)). period_sums data p"
      using make_period_sums by (blast dest: month_step_periods)
  qed
  with finish_facts(1) [OF fin] show ?thesis by simp
qed

lemma apply_event_pay:
  "\<not> pay_event e \<Longrightarrow> res_all (\<lambda>s'. currentPay s' = currentPay s) (apply_event T data e s)"
  by (cases "ev_type e")
     (simp_all add: apply_event_def pay_event_def da_change_def add_remark_def Let_def)

lemma process_events_pay:
  "\<forall>e\<in>set es. \<not> pay_event e \<Longrightarrow>
   res_all (\<lambda>s'. currentPay s' = currentPay s) (process_events T data es s)"
proof (induction es arbitrary: s)
  case Nil
  then show ?case by simp
next
  case (Cons e es)
  have "res_all (\<lambda>s1. res_all (\<lambda>s'. currentPay s' = currentPay s)
          (process_events T data es s1)) (apply_event T data e s)"
  proof (rule res_all_mono [OF apply_event_pay])
    from Cons.prems show "\<not> pay_event e" by simp
  next
    fix s1 :: sim
    assume eq: "currentPay s1 = currentPay s"
    from Cons.prems have "\<forall>e\<in>set es. \<not> pay_event e" by simp
    from Cons.IH [OF this, of s1] eq
    show "res_all (\<lambda>s'. currentPay s' = currentPay s) (process_events T data es s1)"
      by simp
  qed
  then show ?case by simp
qed

lemma month_step_no_schedule:
  assumes ns: "no_schedule s" and ms: "month_step T data evs ch cs d s = Some (Inr s')"
  shows "no_schedule s'"
    and "\<forall>e\<in>set (monthEvents evs d). \<not> pay_event e \<Longrightarrow> currentPay s' = currentPay s"
proof -
  from ms obtain s1 s2 where
    pe: "process_events T data (monthEvents evs d)
           (s\<lparr>month_remarks := [], didIncrementThisMonth := False\<rparr>) = Some (Inr s1)" and
    ai: "annual_increment T data ch d s1 = Some (Inr s2)" and
    st: "s' = store_month T data cs d s2"
    by (rule month_step_elim)
  from res_allD [OF process_events_frame pe] ns have n1: "no_schedule s1"
    by (simp add: ev_frame_def no_schedule_def)
  then have "annual_increment T data ch d s1 = ok s1"
    by (simp add: annual_increment_None no_schedule_def)
  with ai have s2: "s2 = s1" by simp
  with n1 st show "no_schedule s'" by (simp add: no_schedule_def store_month_simps)
  assume "\<forall>e\<in>set (monthEvents evs d). \<not> pay_event e"
  from res_allD [OF process_events_pay [OF this] pe] s2 st
  show "currentPay s' = currentPay s" by (simp add: store_month_simps)
qed

lemma no_dates_sorted:
  "\<forall>c\<in>set cs. effectiveDate_c c = None \<Longrightarrow> sortedIncrementChanges cs = []"
proof -
  assume a: "\<forall>c\<in>set cs. effectiveDate_c c = None"
  have "List.map_filter (\<lambda>c. map_option (\<lambda>d. (d, incrementMonth c)) (effectiveDate_c c)) cs = []"
    using a by (induction cs) simp_all
  then show ?thesis by (simp add: sortedIncrementChanges_def)
qed

subsection \<open>Fitting into a level\<close>

lemma find_sorted_least:
  "sorted xs \<Longrightarrow> find (\<lambda>p. m \<le> p) xs = Some q \<Longrightarrow> q \<in> set xs \<and> m \<le> q \<and> (\<forall>p\<in>set xs. m \<le> p \<longrightarrow> q \<le> p)"
  by (induction xs) (auto split: if_split_asm)

lemma find_none_iff: "find P xs = None \<longleftrightarrow> (\<forall>x\<in>set xs. \<not> P x)"
  by (induction xs) auto

lemma sorted_last_max: "sorted xs \<Longrightarrow> xs \<noteq> [] \<Longrightarrow> last xs \<in> set xs \<and> (\<forall>p\<in>set xs. p \<le> last xs)"
  by (induction xs) (auto simp: )

lemma findPayInMatrix_fitted:
  assumes "PAY_MATRIX T lv = Some row" "row \<noteq> []" "sorted row" "\<forall>p\<in>set row. 0 < p"
  shows "\<exists>q. findPayInMatrix T m lv = ok q \<and> fitted row m q"
proof (cases "find (\<lambda>p. m \<le> p) row")
  case None
  then have "\<forall>p\<in>set row. \<not> m \<le> p" by (simp add: find_none_iff)
  with None assms sorted_last_max [of row] show ?thesis
    by (auto simp: findPayInMatrix_def fitted_def)
next
  case (Some q)
  from find_sorted_least [OF assms(3) Some] assms(4) Some assms(1) show ?thesis
    by (auto simp: findPayInMatrix_def fitted_def)
qed

lemma fix_7th_event:
  assumes "currentCommission s = 6" and "ev_type e = PAY_COMMISSION_7"
    and "currentGradePay s = Some gp"
  shows "(GRADE_PAY_TO_LEVEL T gp = None \<longrightarrow>
            apply_event T data e s = throw (NoLevelForGradePay (Some gp)))
    \<and> (GRADE_PAY_TO_LEVEL T gp = Some lv \<and> lv \<noteq> 0 \<and> PAY_MATRIX T lv = Some row
         \<and> row \<noteq> [] \<and> sorted row \<and> (\<forall>p\<in>set row. 0 < p) \<longrightarrow>
         (\<exists>s'. apply_event T data e s = ok s'
            \<and> fixation7thPC s' =
                Some \<lparr>oldBasicPay = currentPay s,
                      multipliedPay = round_times (currentPay s) FITMENT_FACTOR_7TH_PC,
                      initialRevisedPay = currentPay s', level = lv\<rparr>
            \<and> currentLevel s' = lv
            \<and> fitted row (round_times (currentPay s) FITMENT_FACTOR_7TH_PC) (currentPay s')
            \<and> currentPipb s' = None \<and> currentGradePay s' = None
            \<and> currentCommission s' = 7))"
proof (intro conjI impI)
  assume "GRADE_PAY_TO_LEVEL T gp = None"
  with assms show "apply_event T data e s = throw (NoLevelForGradePay (Some gp))"
    by (simp add: apply_event_def fix_7th_def levelFor7PC_def)
next
  assume a: "GRADE_PAY_TO_LEVEL T gp = Some lv \<and> lv \<noteq> 0 \<and> PAY_MATRIX T lv = Some row
         \<and> row \<noteq> [] \<and> sorted row \<and> (\<forall>p\<in>set row. 0 < p)"
  let ?m = "round_times (currentPay s) FITMENT_FACTOR_7TH_PC"
  from a obtain q where q: "findPayInMatrix T ?m lv = ok q" and f: "fitted row ?m q"
    using findPayInMatrix_fitted [of T lv row ?m] by blast
  from assms a q have "apply_event T data e s =
      ok (add_remark CCA_abolished (add_remark (PayFixed 7)
           (s\<lparr>currentLevel := lv, currentPay := q, currentPipb := None,
              currentGradePay := None, currentCommission := 7,
              fixation7thPC := Some \<lparr>oldBasicPay = currentPay s, multipliedPay = ?m,
                initialRevisedPay = q, level = lv\<rparr>\<rparr>)))"
    by (simp add: apply_event_def fix_7th_def levelFor7PC_def Let_def bnd_ok_left)
  with f show "\<exists>s'. apply_event T data e s = ok s'
            \<and> fixation7thPC s' =
                Some \<lparr>oldBasicPay = currentPay s,
                      multipliedPay = round_times (currentPay s) FITMENT_FACTOR_7TH_PC,
                      initialRevisedPay = currentPay s', level = lv\<rparr>
            \<and> currentLevel s' = lv
            \<and> fitted row (round_times (currentPay s) FITMENT_FACTOR_7TH_PC) (currentPay s')
            \<and> currentPipb s' = None \<and> currentGradePay s' = None
            \<and> currentCommission s' = 7"
    by (intro exI [where x = "add_remark CCA_abolished (add_remark (PayFixed 7)
           (s\<lparr>currentLevel := lv, currentPay := q, currentPipb := None,
              currentGradePay := None, currentCommission := 7,
              fixation7thPC := Some \<lparr>oldBasicPay = currentPay s, multipliedPay = ?m,
                initialRevisedPay = q, level = lv\<rparr>\<rparr>))"])
       (simp add: add_remark_def)
qed

subsection \<open>Day counts\<close>















subsection \<open>DA entries that do not match; the first scheduled date\<close>

lemma da_pick_None:
  "daOverride data = None \<Longrightarrow>
   da_pick data c r das =
     (case filter (da_matches c) das of [] \<Rightarrow> r | x # xs \<Rightarrow> da_rate (last (x # xs)))"
proof (induction das arbitrary: r)
  case Nil
  show ?case by (simp add: da_pick_def)
next
  case (Cons da das)
  have step: "da_pick data c r (da # das) =
      da_pick data c (if da_matches c da then da_rate da else r) das"
    using Cons.prems by (simp add: da_pick_def)
  show ?case
    unfolding step Cons.IH [OF Cons.prems]
    by (simp split: list.split)
qed



subsection \<open>The commission and the DA rate of a month\<close>

lemma fix_4th_commission: "res_all (\<lambda>s'. currentCommission s' = 4) (fix_4th T s)"
  by (simp add: fix_4th_def add_remark_def Let_def split: option.split)

lemma fix_5th_commission: "res_all (\<lambda>s'. currentCommission s' = 5) (fix_5th T s)"
  by (simp add: fix_5th_def add_remark_def Let_def split: option.split)

lemma fix_6th_commission: "res_all (\<lambda>s'. currentCommission s' = 6) (fix_6th T s)"
  by (simp add: fix_6th_def add_remark_def Let_def split: option.split)

lemma fix_7th_commission: "res_all (\<lambda>s'. currentCommission s' = 7) (fix_7th T s)"
  by (auto simp: fix_7th_def add_remark_def Let_def split: option.split intro!: res_allI)

lemma grade_event_commission:
  "res_all (\<lambda>s'. currentCommission s' = currentCommission s) (grade_event T b f s)"
  by (auto simp: grade_event_def grade_pay_change_def add_remark_def set_pay_def Let_def
           split: option.split intro!: res_allI)

lemma promotion_event_commission:
  "res_all (\<lambda>s'. currentCommission s' = currentCommission s) (promotion_event T p s)"
  by (auto simp: promotion_event_def add_remark_def Let_def split: option.split intro!: res_allI)

lemma da_change_commission: "currentCommission (da_change data da s) = currentCommission s"
  by (simp add: da_change_def add_remark_def Let_def)

lemma apply_event_commission:
  "res_all (\<lambda>s'. currentCommission s' = commission_after e (currentCommission s))
     (apply_event T data e s)"
  by (cases "ev_type e")
     (simp_all add: apply_event_def commission_after_def fix_4th_commission fix_5th_commission
        fix_6th_commission fix_7th_commission grade_event_commission
        promotion_event_commission da_change_commission add_remark_def)

lemma process_events_commission:
  "res_all (\<lambda>s'. currentCommission s' = foldl (\<lambda>c e. commission_after e c) (currentCommission s) es)
     (process_events T data es s)"
proof (induction es arbitrary: s)
  case Nil
  then show ?case by simp
next
  case (Cons e es)
  have "res_all (\<lambda>s1. res_all (\<lambda>s'. currentCommission s' =
            foldl (\<lambda>c e. commission_after e c) (currentCommission s) (e # es))
          (process_events T data es s1)) (apply_event T data e s)"
  proof (rule res_all_mono [OF apply_event_commission])
    fix s1 :: sim
    assume eq: "currentCommission s1 = commission_after e (currentCommission s)"
    from Cons.IH [of s1]
    show "res_all (\<lambda>s'. currentCommission s' =
            foldl (\<lambda>c e. commission_after e c) (currentCommission s) (e # es))
          (process_events T data es s1)"
      by (simp add: eq)
  qed
  then show ?case by simp
qed

lemma foldl_commission_id:
  "\<forall>e\<in>set es. commission_after e c = c \<Longrightarrow> foldl (\<lambda>c e. commission_after e c) c es = c"
  by (induction es) simp_all

lemma same_month_iff: "same_month a b \<longleftrightarrow> fst a = fst b"
proof -
  have "fst a = 12 * (fst a div 12) + fst a mod 12" "fst b = 12 * (fst b div 12) + fst b mod 12"
    by simp_all
  then show ?thesis
    unfolding same_month_def getUTCFullYear_def getUTCMonth_def by metis
qed

lemma month_events_parts:
  "monthEvents (build_events T data) d =
     map da_event (month_das T d)
     @ filter (\<lambda>e. same_month (ev_date e) d) commission_events
     @ filter (\<lambda>e. same_month (ev_date e) d) (career_events T data)"
proof -
  let ?P = "\<lambda>e. getUTCFullYear (ev_date e) = getUTCFullYear d
                \<and> getUTCMonth (ev_date e) = getUTCMonth d"
  have "sorted (map priority (filter ?P (build_events T data)))"
    by (rule sorted_filter) (rule sorted_priority_build_events)
  then have me: "monthEvents (build_events T data) d = filter ?P (build_events T data)"
    unfolding monthEvents_def by (rule sort_key_id_if_sorted)
  have das: "filter ?P (map da_event (DA_RATES T)) = map da_event (month_das T d)"
    by (simp add: month_das_def same_month_def filter_map o_def da_event_def)
  have "filter ?P (build_events T data) =
      map da_event (month_das T d) @ filter ?P commission_events
      @ filter ?P (career_events T data)"
    by (simp add: build_events_def das)
  with me show ?thesis by (simp add: same_month_def)
qed

lemma commission_events_month:
  "foldl (\<lambda>c e. commission_after e c) c (filter (\<lambda>e. same_month (ev_date e) d) commission_events)
   = month_commission (fst d) c"
  by (simp add: commission_events_def same_month_iff mkDate_def commission_after_def
        month_commission_def)

lemma career_events_commission:
  "e \<in> set (career_events T data) \<Longrightarrow> commission_after e c = c"
  by (auto simp: career_events_def commission_after_def set_map_filter_iff
           split: option.split_asm)

lemma month_events_commission:
  assumes "process_events T data (monthEvents (build_events T data) d) s = Some (Inr s')"
  shows "currentCommission s' = month_commission (fst d) (currentCommission s)"
proof -
  have 1: "foldl (\<lambda>c e. commission_after e c) c (map da_event das) = c" for c das
    by (rule foldl_commission_id) (simp add: commission_after_def da_event_def)
  have 3: "foldl (\<lambda>c e. commission_after e c) c
             (filter (\<lambda>e. same_month (ev_date e) d) (career_events T data)) = c" for c
    by (rule foldl_commission_id) (auto simp: career_events_commission)
  from res_allD [OF process_events_commission assms]
  show ?thesis
    by (simp add: month_events_parts 1 3 commission_events_month)
qed

lemma month_step_da:
  assumes ms: "month_step T data (build_events T data) ch cs d s = Some (Inr s')"
    and ov: "daOverride data = None"
  shows "currentCommission s' = month_commission (fst d) (currentCommission s)"
    and "currentDaRate s' = month_rate T d (currentCommission s) (currentDaRate s)"
    and "p \<in> set (series (yearlyCalculationsMap s')) \<Longrightarrow>
         p \<in> set (series (yearlyCalculationsMap s))
         \<or> (month_of p = fst d \<and> daRate p = currentDaRate s')"
proof -
  let ?s = "s\<lparr>month_remarks := [], didIncrementThisMonth := False\<rparr>"
  from ms obtain s1 s2 where
    pe: "process_events T data (monthEvents (build_events T data) d) ?s = Some (Inr s1)" and
    ai: "annual_increment T data ch d s1 = Some (Inr s2)" and
    st: "s' = store_month T data cs d s2"
    by (rule month_step_elim)
  from month_events_da_rate [OF pe]
  have r1: "currentDaRate s1 = month_rate T d (currentCommission s) (currentDaRate s)"
    by (simp add: da_pick_None [OF ov] month_rate_def)
  from month_events_commission [OF pe]
  have c1: "currentCommission s1 = month_commission (fst d) (currentCommission s)" by simp
  from res_allD [OF process_events_frame pe]
  have m1: "yearlyCalculationsMap s1 = yearlyCalculationsMap s" by (simp add: ev_frame_def)
  from res_allD [OF annual_increment_keeps ai]
  have k: "currentDaRate s2 = currentDaRate s1" "yearlyCalculationsMap s2 = yearlyCalculationsMap s1"
    "currentCommission s2 = currentCommission s1"
    by (simp_all add: keeps_def)
  show "currentCommission s' = month_commission (fst d) (currentCommission s)"
    by (simp add: st store_month_simps k c1)
  show r: "currentDaRate s' = month_rate T d (currentCommission s) (currentDaRate s)"
    by (simp add: st store_month_simps k r1)
  have dp: "daRate (make_period T data d s2) = currentDaRate s'"
    by (simp add: make_period_def Let_def st store_month_simps)
  assume "p \<in> set (series (yearlyCalculationsMap s'))"
  then have "p \<in> set (series (yearlyCalculationsMap s)) \<or> p = make_period T data d s2"
    by (auto simp: st store_month_def set_series_push k m1 split: if_split_asm)
  with dp show "p \<in> set (series (yearlyCalculationsMap s))
         \<or> (month_of p = fst d \<and> daRate p = currentDaRate s')"
    by auto
qed

lemma initial_state_commission:
  assumes "initial_state T data doj = Some (Inr s0)"
  shows "currentCommission s0 = joining_commission doj"
proof -
  have o: "res_all (\<lambda>s'. currentCommission s' = c) (old_joining c scales pay scaleId ordinary s)"
    for c scales pay scaleId ordinary s
    by (simp add: old_joining_def split: option.split)
  have "res_all (\<lambda>s'. currentCommission s' = joining_commission doj)
          (initial_fixation T data doj s)" for s
  proof -
    consider (3) "doj < mkDate 1986 1 1"
      | (4) "\<not> doj < mkDate 1986 1 1" "doj < mkDate 1996 1 1"
      | (5) "\<not> doj < mkDate 1986 1 1" "\<not> doj < mkDate 1996 1 1" "doj < mkDate 2006 1 1"
      | (6) "\<not> doj < mkDate 1986 1 1" "\<not> doj < mkDate 1996 1 1" "\<not> doj < mkDate 2006 1 1"
          "doj < mkDate 2016 1 1"
      | (7) "\<not> doj < mkDate 1986 1 1" "\<not> doj < mkDate 1996 1 1" "\<not> doj < mkDate 2006 1 1"
          "\<not> doj < mkDate 2016 1 1"
      by blast
    then show ?thesis
    proof cases
      case 3
      then show ?thesis by (simp only: initial_fixation_def joining_commission_def if_True o)
    next
      case 4
      then show ?thesis
        by (simp only: initial_fixation_def joining_commission_def if_True if_False o)
    next
      case 5
      then show ?thesis
        by (simp only: initial_fixation_def joining_commission_def if_True if_False o)
    next
      case 6
      then show ?thesis
        unfolding initial_fixation_def joining_commission_def
        by (simp only: if_True if_False) (simp split: option.split)
    next
      case 7
      then show ?thesis
        unfolding initial_fixation_def joining_commission_def
        by (simp only: if_True if_False) (simp split: option.split list.split)
    qed
  qed
  from res_allD [OF this assms [unfolded initial_state_def]] show ?thesis .
qed

subsection \<open>The DA rate along the simulated dates\<close>

lemma da_walk_step:
  "fst d \<le> m \<Longrightarrow>
   da_walk T m d (c, r) = da_walk T m (next_month d) (month_commission (fst d) c, month_rate T d c r)"
  by (subst da_walk.simps) simp

lemma da_walk_stop: "m < fst d \<Longrightarrow> da_walk T m d cr = cr"
  by (subst da_walk.simps) simp

lemma da_inv_step:
  assumes inv: "da_inv T doj d s" and ov: "daOverride data = None"
    and ms: "month_step T data (build_events T data) ch cs d s = Some (Inr s')"
  shows "da_inv T doj (next_month d) s'"
proof -
  let ?c = "currentCommission s" and ?r = "currentDaRate s"
  note c' = month_step_da(1) [OF ms ov] and r' = month_step_da(2) [OF ms ov]
  have lt: "fst d < fst (next_month d)" by (rule next_month_later)
  from inv have a: "fst doj \<le> fst d"
    and b: "\<And>m. fst d \<le> m \<Longrightarrow> da_walk T m doj (joining_commission doj, 0) = da_walk T m d (?c, ?r)"
    and c: "\<And>p. p \<in> set (series (yearlyCalculationsMap s)) \<Longrightarrow>
              fst doj \<le> month_of p \<and> month_of p < fst d
              \<and> daRate p = da_rate_at T doj (month_of p)"
    by (simp_all add: da_inv_def)
  have w: "da_walk T m doj (joining_commission doj, 0)
           = da_walk T m (next_month d) (currentCommission s', currentDaRate s')"
    if "fst d \<le> m" for m
    using b [OF that] by (simp add: da_walk_step [OF that] c' r')
  have here: "da_rate_at T doj (fst d) = currentDaRate s'"
    unfolding da_rate_at_def w [OF order_refl] by (simp add: da_walk_stop [OF lt])
  have 1: "fst doj \<le> fst (next_month d)" using a lt by simp
  have 2: "\<forall>m\<ge>fst (next_month d). da_walk T m doj (joining_commission doj, 0)
             = da_walk T m (next_month d) (currentCommission s', currentDaRate s')"
    using lt by (auto intro: w)
  have 3: "\<forall>p\<in>set (series (yearlyCalculationsMap s')).
            fst doj \<le> month_of p \<and> month_of p < fst (next_month d)
            \<and> daRate p = da_rate_at T doj (month_of p)"
  proof
    fix p assume "p \<in> set (series (yearlyCalculationsMap s'))"
    from month_step_da(3) [OF ms ov this]
    show "fst doj \<le> month_of p \<and> month_of p < fst (next_month d)
            \<and> daRate p = da_rate_at T doj (month_of p)"
    proof
      assume "p \<in> set (series (yearlyCalculationsMap s))"
      from c [OF this] lt show ?thesis by simp
    next
      assume "month_of p = fst d \<and> daRate p = currentDaRate s'"
      with a lt here show ?thesis by simp
    qed
  qed
  from 1 2 3 show ?thesis unfolding da_inv_def by (intro conjI)
qed

lemma run_da_rates:
  assumes ov: "daOverride data = None"
    and run: "calculateFullPayroll T data = Some (Inr r)"
    and doj: "dateOfJoining data = Some doj"
    and p: "p \<in> set (series (yearlyCalculations r))"
  shows "fst doj \<le> month_of p \<and> daRate p = da_rate_at T doj (month_of p)"
proof -
  from run doj obtain cs ce s0 s where
    init: "initial_state T data doj = Some (Inr s0)" and
    loop: "sim_loop T data (build_events T data)
             (sortedIncrementChanges (annualIncrementChanges data))
             cs (effective_end data ce) doj s0 = Some (Inr s)" and
    fin: "finish data s = Some (Inr r)"
    by (auto elim: calculateFullPayroll_elim)
  from initial_state_facts(1,3) [OF init] initial_state_commission [OF init]
  have "da_inv T doj doj s0"
    by (simp add: da_inv_def series_def)
  with loop have "da_inv T doj (stop_date (effective_end data ce) doj) s"
    by (rule sim_loop_inv) (rule da_inv_step [OF _ ov])
  with finish_facts(1) [OF fin] p show ?thesis by (simp add: da_inv_def)
qed

subsection \<open>DA entries dated before the month of joining\<close>

lemma findPayInMatrix_das: "findPayInMatrix (T\<lparr>DA_RATES := X\<rparr>) = findPayInMatrix T"
  by (intro ext) (simp add: findPayInMatrix_def)

lemma getIncrement_das: "getIncrement (T\<lparr>DA_RATES := X\<rparr>) = getIncrement T"
  by (intro ext)
     (simp add: getIncrement_def Let_def
        cong: if_cong option.case_cong sum.case_cong list.case_cong event_type.case_cong)

lemma getHra_das: "getHra (T\<lparr>DA_RATES := X\<rparr>) = getHra T"
  by (intro ext) (simp add: getHra_def)

lemma initial_fixation_das: "initial_fixation (T\<lparr>DA_RATES := X\<rparr>) = initial_fixation T"
  by (intro ext)
     (simp add: initial_fixation_def Let_def
        cong: if_cong option.case_cong sum.case_cong list.case_cong event_type.case_cong)

lemma career_events_das: "career_events (T\<lparr>DA_RATES := X\<rparr>) = career_events T"
  by (intro ext) (simp add: career_events_def)

lemma fix_4th_das: "fix_4th (T\<lparr>DA_RATES := X\<rparr>) = fix_4th T"
  by (intro ext) (simp add: fix_4th_def)

lemma fix_5th_das: "fix_5th (T\<lparr>DA_RATES := X\<rparr>) = fix_5th T"
  by (intro ext) (simp add: fix_5th_def)

lemma fix_6th_das: "fix_6th (T\<lparr>DA_RATES := X\<rparr>) = fix_6th T"
  by (intro ext) (simp add: fix_6th_def)

lemma levelFor7PC_das: "levelFor7PC (T\<lparr>DA_RATES := X\<rparr>) = levelFor7PC T"
  by (intro ext)
     (simp add: levelFor7PC_def Let_def
        cong: if_cong option.case_cong sum.case_cong list.case_cong event_type.case_cong)

lemma fix_7th_das: "fix_7th (T\<lparr>DA_RATES := X\<rparr>) = fix_7th T"
  by (intro ext)
     (simp add: fix_7th_def levelFor7PC_das findPayInMatrix_das Let_def
        cong: if_cong option.case_cong sum.case_cong list.case_cong event_type.case_cong)

lemma grade_pay_change_das: "grade_pay_change (T\<lparr>DA_RATES := X\<rparr>) = grade_pay_change T"
  by (intro ext)
     (simp add: grade_pay_change_def getIncrement_das Let_def
        cong: if_cong option.case_cong sum.case_cong list.case_cong event_type.case_cong)

lemma grade_event_das: "grade_event (T\<lparr>DA_RATES := X\<rparr>) = grade_event T"
  by (intro ext) (simp add: grade_event_def grade_pay_change_das)

lemma promotion_event_das: "promotion_event (T\<lparr>DA_RATES := X\<rparr>) = promotion_event T"
  by (intro ext)
     (simp add: promotion_event_def getIncrement_das findPayInMatrix_das
        cong: if_cong option.case_cong)

lemma apply_event_das: "apply_event (T\<lparr>DA_RATES := X\<rparr>) = apply_event T"
  by (intro ext)
     (simp add: apply_event_def fix_4th_das fix_5th_das fix_6th_das fix_7th_das
        grade_event_das promotion_event_das Let_def
        cong: if_cong option.case_cong sum.case_cong list.case_cong event_type.case_cong)

lemma process_events_das:
  "process_events (T\<lparr>DA_RATES := X\<rparr>) data es = process_events T data es"
proof (induction es)
  case Nil
  show ?case by (rule ext) simp
next
  case (Cons a es)
  show ?case by (rule ext) (simp add: apply_event_das Cons.IH)
qed

lemma one_increment_das: "one_increment (T\<lparr>DA_RATES := X\<rparr>) = one_increment T"
  by (intro ext) (simp add: one_increment_def getIncrement_das)

lemma account_test_increment_das:
  "account_test_increment (T\<lparr>DA_RATES := X\<rparr>) = account_test_increment T"
  by (intro ext) (simp add: account_test_increment_def one_increment_das)

lemma grant_increment_das: "grant_increment (T\<lparr>DA_RATES := X\<rparr>) = grant_increment T"
  by (intro ext) (simp add: grant_increment_def one_increment_das account_test_increment_das)

lemma annual_increment_das: "annual_increment (T\<lparr>DA_RATES := X\<rparr>) = annual_increment T"
  by (intro ext)
     (simp add: annual_increment_def grant_increment_das Let_def
        cong: if_cong option.case_cong sum.case_cong list.case_cong event_type.case_cong)

lemma make_period_das: "make_period (T\<lparr>DA_RATES := X\<rparr>) = make_period T"
  by (intro ext) (simp add: make_period_def getHra_das)

lemma store_month_das: "store_month (T\<lparr>DA_RATES := X\<rparr>) = store_month T"
  by (intro ext) (simp add: store_month_def make_period_das)

lemma month_step_das:
  "monthEvents evs' d = monthEvents evs d \<Longrightarrow>
   month_step (T\<lparr>DA_RATES := X\<rparr>) data evs' ch cs d s = month_step T data evs ch cs d s"
  by (simp add: month_step_def process_events_das annual_increment_das store_month_das)

lemma sim_loop_das:
  "\<forall>d'. k \<le> fst d' \<longrightarrow> monthEvents evs' d' = monthEvents evs d' \<Longrightarrow> k \<le> fst d \<Longrightarrow>
   sim_loop (T\<lparr>DA_RATES := X\<rparr>) data evs' ch cs ce d s = sim_loop T data evs ch cs ce d s"
proof (induction T data evs ch cs ce d s rule: sim_loop.induct)
  case (1 T data evs ch cs ce d s)
  have L: "sim_loop (T\<lparr>DA_RATES := X\<rparr>) data evs' ch cs ce d s =
      (if d \<le> ce
       then bnd (month_step (T\<lparr>DA_RATES := X\<rparr>) data evs' ch cs d s)
              (sim_loop (T\<lparr>DA_RATES := X\<rparr>) data evs' ch cs ce (next_month d))
       else ok s)"
    by (rule sim_loop.simps)
  have R: "sim_loop T data evs ch cs ce d s =
      (if d \<le> ce
       then bnd (month_step T data evs ch cs d s) (sim_loop T data evs ch cs ce (next_month d))
       else ok s)"
    by (rule sim_loop.simps)
  from "1.prems"(1) [rule_format, OF "1.prems"(2)]
  have me: "monthEvents evs' d = monthEvents evs d" .
  show ?case
  proof (cases "d \<le> ce")
    case True
    from "1.prems"(2) next_month_later [of d] have k: "k \<le> fst (next_month d)" by simp
    have "sim_loop (T\<lparr>DA_RATES := X\<rparr>) data evs' ch cs ce (next_month d) =
          sim_loop T data evs ch cs ce (next_month d)"
      by (intro ext) (rule "1.IH" [OF True "1.prems"(1) k])
    with True show ?thesis
      by (simp only: L R month_step_das [OF me] if_True)
  next
    case False
    then show ?thesis by (simp only: L R if_False)
  qed
qed

lemma filter_map_filter:
  "(\<And>x. P (f x) \<Longrightarrow> Q x) \<Longrightarrow> filter P (map f (filter Q xs)) = filter P (map f xs)"
  by (induction xs) auto

lemma month_events_late_das:
  assumes "fst doj \<le> fst d"
  shows "monthEvents
           (build_events (T\<lparr>DA_RATES := filter (\<lambda>e. fst doj \<le> fst (da_date e)) (DA_RATES T)\<rparr>)
              data) d
         = monthEvents (build_events T data) d"
proof -
  let ?P = "\<lambda>e. getUTCFullYear (ev_date e) = getUTCFullYear d
                \<and> getUTCMonth (ev_date e) = getUTCMonth d"
  have P: "?P e \<longleftrightarrow> fst (ev_date e) = fst d" for e
    using same_month_iff [of "ev_date e" d] by (simp add: same_month_def)
  have "filter ?P (map da_event (filter (\<lambda>e. fst doj \<le> fst (da_date e)) (DA_RATES T)))
        = filter ?P (map da_event (DA_RATES T))"
  proof (rule filter_map_filter)
    fix x assume "?P (da_event x)"
    then have "fst (ev_date (da_event x)) = fst d" by (simp only: P)
    with assms show "fst doj \<le> fst (da_date x)" by (simp add: da_event_def)
  qed
  then show ?thesis
    by (simp add: monthEvents_def build_events_def career_events_das)
qed

lemma run_without_early_das:
  assumes "dateOfJoining data = Some doj"
  shows "calculateFullPayroll
           (T\<lparr>DA_RATES := filter (\<lambda>e. fst doj \<le> fst (da_date e)) (DA_RATES T)\<rparr>) data
         = calculateFullPayroll T data"
proof -
  let ?T = "T\<lparr>DA_RATES := filter (\<lambda>e. fst doj \<le> fst (da_date e)) (DA_RATES T)\<rparr>"
  have i: "initial_state ?T data doj = initial_state T data doj"
    by (simp add: initial_state_def initial_fixation_das)
  have l: "sim_loop ?T data (build_events ?T data) ch cs ce doj s
           = sim_loop T data (build_events T data) ch cs ce doj s" for ch cs ce s
    by (rule sim_loop_das [where k = "fst doj"]) (simp_all add: month_events_late_das)
  have l': "sim_loop ?T data (build_events ?T data) ch cs ce doj
           = sim_loop T data (build_events T data) ch cs ce doj" for ch cs ce
    by (rule ext) (rule l)
  have "simulate ?T data doj cs ce = simulate T data doj cs ce" for cs ce
    unfolding simulate_def i l' ..
  then show ?thesis
    using assms by (simp add: calculateFullPayroll_def cong: option.case_cong if_cong)
qed

subsection \<open>The binary64 product and the exact product\<close>

lemma fitment_value: "FITMENT_FACTOR_7TH_PC = 257 / 100 - 18 / (25 * 2 ^ 52)"
  by code_simp

lemma round_half_even_near: "\<bar>of_int (round_half_even y) - y\<bar> \<le> 1 / 2"
proof -
  have "of_int \<lfloor>y\<rfloor> \<le> y" "y < of_int \<lfloor>y\<rfloor> + 1" by linarith+
  then show ?thesis
    by (simp add: round_half_even_def Let_def)
qed

lemma fl_near:
  assumes "1 \<le> q" and "q < 2 ^ 33"
  shows "\<bar>fl q - q\<bar> \<le> 1 / 2 ^ 21"
proof -
  define e where "e = ilog2 \<bar>q\<bar>"
  define u where "u = pow2 (e - 52)"
  have "\<lfloor>q\<rfloor> < 2 ^ 33" using assms(2) by (simp add: floor_less_iff)
  then have "bitlen \<lfloor>q\<rfloor> \<le> 33" by (simp add: bitlen_le_iff_power)
  with assms(1) have e: "e \<le> 32" by (simp add: e_def ilog2_def)
  define k where "k = nat (52 - e)"
  from e have k: "20 \<le> k" by (simp add: k_def)
  from e have u: "u = 1 / 2 ^ k" by (simp add: u_def pow2_def k_def)
  have "(2::rat) ^ 20 \<le> 2 ^ k" using k by (intro power_increasing) simp_all
  then have u20: "u \<le> 1 / 2 ^ 20" unfolding u by (simp add: field_simps)
  have u0: "0 < u" unfolding u by simp
  from assms(1) have "fl q = of_int (round_half_even (q / u)) * u"
    by (simp add: fl_def Let_def u_def e_def)
  then have "fl q - q = (of_int (round_half_even (q / u)) - q / u) * u"
    using u0 by (simp add: field_simps)
  then have "\<bar>fl q - q\<bar> = \<bar>of_int (round_half_even (q / u)) - q / u\<bar> * u"
    using u0 by (simp add: abs_mult)
  also have "\<dots> \<le> (1 / 2) * u"
    using round_half_even_near [of "q / u"] u0 by (intro mult_right_mono) simp_all
  also have "\<dots> \<le> 1 / 2 ^ 21" using u20 by simp
  finally show ?thesis .
qed

lemma round_times_fitment:
  assumes "0 \<le> x" and "x < 2 ^ 31"
  shows "round_times x FITMENT_FACTOR_7TH_PC = Math_round (of_int x * 257 / 100)
     \<or> (257 * x) mod 100 = 50
        \<and> round_times x FITMENT_FACTOR_7TH_PC = Math_round (of_int x * 257 / 100) - 1"
proof (cases "x = 0")
  case True
  then show ?thesis by (simp add: round_times_def fl_def Math_round_def)
next
  case False
  with assms have x1: "1 \<le> x" by simp
  define X :: rat where "X = of_int x"
  have X1: "1 \<le> X" using x1 by (simp add: X_def)
  have X31: "X < 2 ^ 31"
  proof -
    from assms(2) have "(of_int x :: rat) < of_int (2 ^ 31)" by (simp only: of_int_less_iff)
    then show ?thesis by (simp add: X_def)
  qed
  define \<delta> :: rat where "\<delta> = 18 / (25 * 2 ^ 52)"
  define q where "q = X * FITMENT_FACTOR_7TH_PC"
  define p where "p = X * 257 / 100"
  have qp: "q = p - X * \<delta>" by (simp add: q_def p_def \<delta>_def fitment_value algebra_simps)
  have d0: "0 \<le> X * \<delta>" using X1 by (simp add: \<delta>_def)
  have d1: "X * \<delta> \<le> 1 / 2 ^ 21"
  proof -
    have "X * \<delta> \<le> 2 ^ 31 * \<delta>" using X31 by (intro mult_right_mono) (simp_all add: \<delta>_def)
    also have "\<dots> \<le> 1 / 2 ^ 21" by (simp add: \<delta>_def)
    finally show ?thesis .
  qed
  have q1: "1 \<le> q" using X1 d1 unfolding qp p_def by simp
  have q33: "q < 2 ^ 33" using X31 d0 unfolding qp p_def by simp
  define v where "v = fl q"
  from fl_near [OF q1 q33] have v: "\<bar>v - q\<bar> \<le> 1 / 2 ^ 21" by (simp add: v_def)
  define t where "t = X * \<delta>"
  have t: "0 \<le> t" "t \<le> 1 / 2097152" using d0 d1 by (simp_all add: t_def)
  have vt: "\<bar>v - (p - t)\<bar> \<le> 1 / 2097152" using v unfolding qp t_def by simp
  have lo: "p - 1 / 1048576 \<le> v" using vt t by linarith
  have hi: "v \<le> p + 1 / 2097152" using vt t by linarith
  define a where "a = (257 * x) div 100"
  define r where "r = (257 * x) mod 100"
  have r: "0 \<le> r" "r < 100" by (simp_all add: r_def)
  have "257 * x = 100 * a + r" by (simp add: a_def r_def)
  then have "(of_int (257 * x) :: rat) = of_int (100 * a + r)" by simp
  then have pa: "p = of_int a + of_int r / 100" by (simp add: p_def X_def)
  have rt: "round_times x FITMENT_FACTOR_7TH_PC = \<lfloor>v + 1 / 2\<rfloor>"
    by (simp add: round_times_def Math_round_def v_def q_def X_def)
  have ex: "Math_round (of_int x * 257 / 100) = \<lfloor>p + 1 / 2\<rfloor>"
    by (simp add: Math_round_def p_def X_def)
  consider "r < 50" | "r = 50" | "50 < r" by linarith
  then show ?thesis
  proof cases
    case 1
    then have "of_int r \<le> (49::rat)" by (simp add: of_int_le_iff [of r 49, simplified])
    moreover have "(0::rat) \<le> of_int r" using r by simp
    ultimately have "\<lfloor>p + 1 / 2\<rfloor> = a" "\<lfloor>v + 1 / 2\<rfloor> = a"
      using lo hi unfolding pa by (simp_all add: floor_eq_iff) 
    then show ?thesis unfolding rt ex by simp
  next
    case 2
    then have "\<lfloor>p + 1 / 2\<rfloor> = a + 1" unfolding pa by (simp add: floor_eq_iff)
    moreover have "\<lfloor>v + 1 / 2\<rfloor> = a \<or> \<lfloor>v + 1 / 2\<rfloor> = a + 1"
    proof (cases "p \<le> v")
      case True
      with hi 2 have "\<lfloor>v + 1 / 2\<rfloor> = a + 1" unfolding pa by (simp add: floor_eq_iff)
      then show ?thesis by simp
    next
      case False
      with lo 2 have "\<lfloor>v + 1 / 2\<rfloor> = a" unfolding pa by (simp add: floor_eq_iff)
      then show ?thesis by simp
    qed
    ultimately show ?thesis unfolding rt ex using 2 by (auto simp: r_def)
  next
    case 3
    then have "(51::rat) \<le> of_int r" by (simp add: of_int_le_iff [of 51 r, simplified])
    moreover have "of_int r \<le> (99::rat)" using r by (simp add: of_int_le_iff [of r 99, simplified])
    ultimately have "\<lfloor>p + 1 / 2\<rfloor> = a + 1" "\<lfloor>v + 1 / 2\<rfloor> = a + 1"
      using lo hi unfolding pa by (simp_all add: floor_eq_iff)
    then show ?thesis unfolding rt ex by simp
  qed
qed

subsection \<open>The earliest dated entry of the increment schedule\<close>




section \<open>Evaluated runs\<close>

text \<open>
  The roundings below are evaluated in the binary64 model; the runs are then evaluated by
  rewriting with the definitions of the engine.
\<close>

lemma roundings:
  "round_percent 13500 119 = 16065" "round_percent 29565 10 = 2957"
  "round_times 13500 FITMENT_FACTOR_7TH_PC = 34695"
  "round_percent 35200 119 = 41888" "round_percent 77088 10 = 7709"
  "round_percent 19000 12 = 2280" "round_percent 21280 10 = 2128"
  "round_percent 19600 12 = 2352" "round_percent 21952 10 = 2195"
  "round_percent 19000 0 = 0" "round_percent 19000 10 = 1900"
  by code_simp+

lemma parse_7: "parseInt10 ''7'' = Some 7"
  by code_simp

lemmas eval_defs =
  calculateFullPayroll_def simulate_def initial_state_def initial_fixation_def
  start_state_def empty_analysis_def firstScheduledIncrementDate_def sortedIncrementChanges_def
  totalBreakDays_def build_events_def commission_events_def career_events_def da_event_def
  effective_end_def finish_def sim_loop.simps month_step_def monthEvents_def apply_event_def
  da_change_def fix_7th_def levelFor7PC_def findPayInMatrix_def add_remark_def
  annual_increment_def grant_increment_def account_test_increment_def one_increment_def
  next_increment_date_def getIncrement_def set_pay_def count_regular_def
  calculateProbationIncrementEligibility_def store_month_def make_period_def
  make_deductions_def getHra_def mapCityClassToGrade_def or_num_def next_month_def
  setUTCMonth_def setUTCFullYear_def setUTCDate_def Date_UTC_def getUTCFullYear_def
  getUTCMonth_def getUTCDate_def mkDate_def MakeDate.simps days_in_month_def leap_year_def
  month_index_def bnd_def ok_def throw_def Let_def sample_tables_def sample_rates_def

lemma run_2015: "calculateFullPayroll sample_tables joiner_2015 = Some (Inr result_2015)"
  by (simp add: eval_defs joiner_2015_def entrant_2019_def result_2015_def period_2015_12_def
        period_2016_01_def roundings)

lemma run_2019: "calculateFullPayroll sample_tables entrant_2019 = Some (Inr result_2019)"
  by (simp add: eval_defs entrant_2019_def result_2019_def period_2019_06_def
        period_2019_07_def roundings parse_7)


lemma run_2018: "calculateFullPayroll sample_tables entrant_2018 = Some (Inr result_2018)"
  by (simp add: eval_defs entrant_2018_def entrant_2019_def result_2018_def period_2018_08_def
        roundings parse_7)

lemma january_2016:
  "process_events sample_tables joiner_2015
     (monthEvents (build_events sample_tables joiner_2015) (mkDate 2016 1 1)) state_2015
   = Some (Inr state_2016)"
  by (simp add: eval_defs joiner_2015_def entrant_2019_def state_2015_def state_2016_def
        roundings)

lemma initial_2019:
  "initial_state sample_tables entrant_2019 (mkDate 2019 1 1) = Some (Inr state_2019)"
  by (simp add: eval_defs entrant_2019_def state_2019_def parse_7)

lemma january_2019:
  "month_step sample_tables entrant_2019 (build_events sample_tables entrant_2019)
     (sortedIncrementChanges (annualIncrementChanges entrant_2019)) (mkDate 2019 1 1)
     (mkDate 2019 1 1) state_2019 = Some (Inr state_2019_02)"
  by (simp add: eval_defs entrant_2019_def state_2019_def state_2019_02_def roundings)

lemma fixation_2016:
  "apply_event sample_tables joiner_2015 commission_7_event state_2015 = Some (Inr state_2016)"
  by (simp add: eval_defs state_2015_def state_2016_def commission_7_event_def roundings)

lemma increment_2019:
  "annual_increment sample_tables entrant_2019
     (sortedIncrementChanges (annualIncrementChanges entrant_2019)) (mkDate 2019 7 1) state_2019
   = Some (Inr state_2019_07)"
  by (simp add: eval_defs entrant_2019_def state_2019_def state_2019_07_def)



lemma run_blank: "calculateFullPayroll sample_tables blank_schedule = Some (Inr result_2018)"
  by (simp add: eval_defs blank_schedule_def entrant_2018_def entrant_2019_def result_2018_def
        period_2018_08_def roundings parse_7)

lemma initial_blank:
  "initial_state sample_tables blank_schedule (mkDate 2018 8 1) = Some (Inr state_2018)"
  by (simp add: eval_defs blank_schedule_def entrant_2018_def entrant_2019_def state_2018_def
        parse_7)

lemma sorted_row_8: "sorted row_8 \<and> row_8 \<noteq> [] \<and> (\<forall>p\<in>set row_8. 0 < p)"
  by (simp add: row_8_def)











lemma rounding_23050: "round_times 23050 FITMENT_FACTOR_7TH_PC = 59238"
  by code_simp

lemma exact_23050: "Math_round (of_int 23050 * 257 / 100) = 59239"
  by code_simp

lemma exact_13500: "Math_round (of_int 13500 * 257 / 100) = 34695"
  by code_simp

lemma fixation_23050:
  "apply_event sample_tables joiner_2015 commission_7_event state_23050 = Some (Inr state_59238)"
  by (simp add: eval_defs state_2015_def state_23050_def state_59238_def commission_7_event_def
        rounding_23050)

lemma da_rates_2019:
  "da_rate_at sample_tables (mkDate 2019 1 1) (fst (mkDate 2019 6 1)) = 12"
  "da_rate_at sample_tables (mkDate 2019 1 1) (fst (mkDate 2019 7 1)) = 12"
  by code_simp+

lemma da_rates_2015:
  "da_rate_at sample_tables (mkDate 2015 7 1) (fst (mkDate 2015 12 1)) = 119"
  "da_rate_at sample_tables (mkDate 2015 7 1) (fst (mkDate 2016 1 1)) = 119"
  by code_simp+

lemma late_entries_2019:
  "filter (\<lambda>e. fst (mkDate 2019 1 1) \<le> fst (da_date e)) (DA_RATES sample_tables)
   = [\<lparr>da_date = mkDate 2019 1 1, da_commission = 7, da_rate = 12\<rparr>]"
  by (simp add: sample_tables_def mkDate_def)

section \<open>The claims of the specification\<close>

text \<open>
  C1 (amended). In every month the DA changes are applied before any other event of the
  month, a commission transition included: the events of the month are the DA entries of the
  table dated in that month, in table order, followed by events that are not DA changes.
  So the DA rate after all events of the month is the one reached by matching those entries
  against the commission in force before the events of the month, not against the new
  commission. The commission does not go down through the events.
\<close>

theorem da_before_fixation:
  assumes "process_events T data (monthEvents (build_events T data) d) s = Some (Inr s')"
  shows "(\<exists>tl. monthEvents (build_events T data) d = map da_event (month_das T d) @ tl
            \<and> (\<forall>e\<in>set tl. \<not> is_da e))
    \<and> currentDaRate s' = da_pick data (currentCommission s) (currentDaRate s) (month_das T d)
    \<and> currentCommission s \<le> currentCommission s'"
  using month_events_split [of T data d] month_events_da_rate [OF assms]
    res_allD [OF process_events_frame assms]
  by (simp add: ev_frame_def)

text \<open>
  As worded in the specification the DA change would follow the fixation and be matched
  against the new commission. January 2016 of the sample employee who joined in 2015 holds
  the transition to the 7th commission and the DA entry \<open>(2016-01-01, commission 7, 0 %)\<close>:
  the period of that month has commission 7 and still the rate 119 of the 6th commission,
  where matching against commission 7 would give 0.
\<close>

theorem C1_counterexample:
  "calculateFullPayroll sample_tables joiner_2015 = Some (Inr result_2015)
   \<and> map period (series (yearlyCalculations result_2015)) = [(11, 2015), (0, 2016)]
   \<and> map commission (series (yearlyCalculations result_2015)) = [6, 7]
   \<and> map daRate (series (yearlyCalculations result_2015)) = [119, 119]
   \<and> da_pick joiner_2015 7 119 (month_das sample_tables (mkDate 2016 1 1)) = 0"
  using run_2015
  by (simp add: result_2015_def series_def period_2015_12_def period_2016_01_def da_pick_def
        month_das_def same_month_def da_matches_def sample_tables_def mkDate_def
        getUTCFullYear_def getUTCMonth_def joiner_2015_def entrant_2019_def)

text \<open>
  The amended statement at that month.
\<close>

theorem C1_witness:
  "process_events sample_tables joiner_2015
     (monthEvents (build_events sample_tables joiner_2015) (mkDate 2016 1 1)) state_2015
     = Some (Inr state_2016)
   \<and> currentCommission state_2015 = 6 \<and> currentCommission state_2016 = 7
   \<and> currentDaRate state_2016 = 119
   \<and> da_pick joiner_2015 6 119 (month_das sample_tables (mkDate 2016 1 1)) = 119"
  using da_before_fixation [OF january_2016] january_2016
  by (simp add: state_2015_def state_2016_def start_state_def)

text \<open>
  C2 (amended). For an input without \<^verbatim>\<open>daOverride\<close> and every period of a returned run:
  the month of the period is not before the month of joining, and its \<^verbatim>\<open>daRate\<close> is
  \<open>da_rate_at\<close>: the rate is 0 at the date of joining, and at each date the loop visits,
  from the date of joining on and also before the calculation start, it becomes the rate of
  the last table entry dated in the month of that date that matches the commission in force
  before the transition of that month (commissions below 6 share the entries of commission
  5), or stays as it was when that month has no such entry. No entry dated before the month
  of joining is read: the run on the table without them returns the same result.
\<close>

theorem da_rate_of_period:
  assumes "daOverride data = None" and "calculateFullPayroll T data = Some (Inr r)"
    and "dateOfJoining data = Some doj"
  shows "(\<forall>p\<in>set (series (yearlyCalculations r)).
            fst doj \<le> month_of p \<and> daRate p = da_rate_at T doj (month_of p))
    \<and> calculateFullPayroll
         (T\<lparr>DA_RATES := filter (\<lambda>e. fst doj \<le> fst (da_date e)) (DA_RATES T)\<rparr>) data
       = Some (Inr r)"
  using run_da_rates [OF assms] run_without_early_das [OF assms(3), of T] assms(2)
  by simp

text \<open>
  As worded in the specification the rate of a month is looked up in the whole table. The
  sample employee who joins on 2018-08-01 gets the rate 0 in August 2018, where the most
  recent matching entry on or before that month (2018-07-01) has the rate 9.
\<close>

theorem C2_counterexample:
  "daOverride entrant_2018 = None
   \<and> calculateFullPayroll sample_tables entrant_2018 = Some (Inr result_2018)
   \<and> map period (series (yearlyCalculations result_2018)) = [(7, 2018)]
   \<and> map commission (series (yearlyCalculations result_2018)) = [7]
   \<and> map daRate (series (yearlyCalculations result_2018)) = [0]
   \<and> spec_da_lookup sample_tables 7 (mkDate 2018 8 1) = Some 9"
  using run_2018
  by (simp add: result_2018_def series_def period_2018_08_def spec_da_lookup_def
        da_matches_def sample_tables_def mkDate_def entrant_2018_def entrant_2019_def)

text \<open>
  The sample employee who joins in January 2019 with the periods of June and July 2019: the
  rate 12 comes from the entry of January 2019, a month before the calculation start, and the
  run on the table cut down to that entry returns the same result. The employee who joins in
  July 2015 keeps the rate 119 through the transition of January 2016.
\<close>

theorem C2_witness:
  "daOverride entrant_2019 = None
   \<and> calculateFullPayroll sample_tables entrant_2019 = Some (Inr result_2019)
   \<and> dateOfJoining entrant_2019 = Some (mkDate 2019 1 1)
   \<and> calculationStartDate entrant_2019 = Some (mkDate 2019 6 1)
   \<and> series (yearlyCalculations result_2019) = [period_2019_06, period_2019_07]
   \<and> month_of period_2019_06 = fst (mkDate 2019 6 1)
   \<and> month_of period_2019_07 = fst (mkDate 2019 7 1)
   \<and> daRate period_2019_06 = 12 \<and> daRate period_2019_07 = 12
   \<and> da_rate_at sample_tables (mkDate 2019 1 1) (fst (mkDate 2019 6 1)) = 12
   \<and> da_rate_at sample_tables (mkDate 2019 1 1) (fst (mkDate 2019 7 1)) = 12
   \<and> calculateFullPayroll
        (sample_tables\<lparr>DA_RATES :=
           [\<lparr>da_date = mkDate 2019 1 1, da_commission = 7, da_rate = 12\<rparr>]\<rparr>) entrant_2019
      = Some (Inr result_2019)
   \<and> daOverride joiner_2015 = None
   \<and> calculateFullPayroll sample_tables joiner_2015 = Some (Inr result_2015)
   \<and> dateOfJoining joiner_2015 = Some (mkDate 2015 7 1)
   \<and> series (yearlyCalculations result_2015) = [period_2015_12, period_2016_01]
   \<and> month_of period_2015_12 = fst (mkDate 2015 12 1)
   \<and> month_of period_2016_01 = fst (mkDate 2016 1 1)
   \<and> daRate period_2015_12 = 119 \<and> daRate period_2016_01 = 119
   \<and> da_rate_at sample_tables (mkDate 2015 7 1) (fst (mkDate 2015 12 1)) = 119
   \<and> da_rate_at sample_tables (mkDate 2015 7 1) (fst (mkDate 2016 1 1)) = 119"
  using da_rate_of_period [of entrant_2019 sample_tables result_2019 "mkDate 2019 1 1"]
    da_rate_of_period [of joiner_2015 sample_tables result_2015 "mkDate 2015 7 1"]
    run_2019 run_2015 da_rates_2019 da_rates_2015
  by (simp add: late_entries_2019)
     (simp add: entrant_2019_def joiner_2015_def result_2019_def result_2015_def series_def
        period_2019_06_def period_2019_07_def period_2015_12_def period_2016_01_def
        month_of_def mkDate_def)

text \<open>
  C3 (amended). When the event of the 7th commission is applied while the 6th commission is
  current and the grade pay is \<open>gp\<close>: without a level for \<open>gp\<close> the call throws; with a
  level whose row of the pay matrix is a non-empty ascending list of positive stages, the
  multiplied pay is \<^verbatim>\<open>Math.round\<close> of the binary64 product \<^verbatim>\<open>basicPay * 2.57\<close>, the level is
  the one of the grade pay, the new basic pay is the least stage of the row at or above the
  multiplied pay (the greatest stage if there is none), pay in pay band and grade pay are
  cleared, and the commission is 7. For a basic pay from 0 to below \<open>2 ^ 31\<close> the multiplied
  pay is the exact product rounded half up, except that it may be one less when the exact
  product ends in one half.
\<close>

theorem seventh_pc_fixation:
  assumes "currentCommission s = 6" and "ev_type e = PAY_COMMISSION_7"
    and "currentGradePay s = Some gp"
  shows "(GRADE_PAY_TO_LEVEL T gp = None \<longrightarrow>
            apply_event T data e s = throw (NoLevelForGradePay (Some gp)))
    \<and> (GRADE_PAY_TO_LEVEL T gp = Some lv \<and> lv \<noteq> 0 \<and> PAY_MATRIX T lv = Some row
         \<and> row \<noteq> [] \<and> sorted row \<and> (\<forall>p\<in>set row. 0 < p) \<longrightarrow>
         (\<exists>s'. apply_event T data e s = ok s'
            \<and> fixation7thPC s' =
                Some \<lparr>oldBasicPay = currentPay s,
                      multipliedPay = round_times (currentPay s) FITMENT_FACTOR_7TH_PC,
                      initialRevisedPay = currentPay s', level = lv\<rparr>
            \<and> currentLevel s' = lv
            \<and> fitted row (round_times (currentPay s) FITMENT_FACTOR_7TH_PC) (currentPay s')
            \<and> currentPipb s' = None \<and> currentGradePay s' = None
            \<and> currentCommission s' = 7))
    \<and> (0 \<le> currentPay s \<and> currentPay s < 2 ^ 31 \<longrightarrow>
         round_times (currentPay s) FITMENT_FACTOR_7TH_PC
           = Math_round (of_int (currentPay s) * 257 / 100)
         \<or> (257 * currentPay s) mod 100 = 50
            \<and> round_times (currentPay s) FITMENT_FACTOR_7TH_PC
                = Math_round (of_int (currentPay s) * 257 / 100) - 1)"
  using fix_7th_event [OF assms, of T data lv row] round_times_fitment [of "currentPay s"]
  by blast

text \<open>
  With the exact product rounded half up, as the specification words it, a basic pay of
  23050 would give 59239; the code records the multiplied pay 59238.
\<close>

theorem C3_counterexample:
  "currentCommission state_23050 = 6 \<and> currentPay state_23050 = 23050
   \<and> currentGradePay state_23050 = Some 4200
   \<and> apply_event sample_tables joiner_2015 commission_7_event state_23050
       = Some (Inr state_59238)
   \<and> fixation7thPC state_59238 =
       Some \<lparr>oldBasicPay = 23050, multipliedPay = 59238, initialRevisedPay = 36300, level = 8\<rparr>
   \<and> Math_round (of_int 23050 * 257 / 100) = 59239"
  using fixation_23050 exact_23050
  by (simp add: state_23050_def state_59238_def state_2015_def start_state_def)

text \<open>
  The fixation of the sample employee at grade pay 4200 (13500 becomes 34695, fitted to 35200
  on level 8), the third part at 13500 and at 23050, and the error for a grade pay without
  level.
\<close>

theorem C3_witness:
  "currentCommission state_2015 = 6 \<and> currentGradePay state_2015 = Some 4200
   \<and> GRADE_PAY_TO_LEVEL sample_tables 4200 = Some 8
   \<and> PAY_MATRIX sample_tables 8 = Some row_8 \<and> sorted row_8
   \<and> round_times 13500 FITMENT_FACTOR_7TH_PC = 34695
   \<and> Math_round (of_int 13500 * 257 / 100) = 34695
   \<and> apply_event sample_tables joiner_2015 commission_7_event state_2015 = ok state_2016
   \<and> currentPay state_2016 = 35200 \<and> currentLevel state_2016 = 8
   \<and> currentPipb state_2016 = None \<and> currentGradePay state_2016 = None
   \<and> round_times 23050 FITMENT_FACTOR_7TH_PC = 59238
   \<and> Math_round (of_int 23050 * 257 / 100) = 59239
   \<and> (257 * 23050) mod 100 = (50 :: int)
   \<and> GRADE_PAY_TO_LEVEL sample_tables 1300 = None
   \<and> apply_event sample_tables joiner_2015 commission_7_event
        (state_2015\<lparr>currentGradePay := Some 1300\<rparr>) = throw (NoLevelForGradePay (Some 1300))"
  using seventh_pc_fixation [of state_2015 commission_7_event 4200 sample_tables joiner_2015 8
      row_8]
    seventh_pc_fixation [of "state_2015\<lparr>currentGradePay := Some 1300\<rparr>" commission_7_event
      1300 sample_tables joiner_2015 8 row_8]
    sorted_row_8 rounding_23050 exact_23050 exact_13500
  by (simp add: eval_defs state_2015_def state_2016_def commission_7_event_def row_8_def
        roundings)




text \<open>
  C5. For the first increment under a probation of one year with a test requirement, when
  the termination after five years is not triggered: the call returns; the result is eligible
  exactly when the test is passed and has a pass date; when eligible the effective date is
  the later of the normal date and the pass date; when not eligible the effective date is
  the normal date.
\<close>

theorem probation_first_increment:
  assumes "probationYears ptype pmonths = 1"
    and "\<not> (st \<noteq> Some Passed \<and> st \<noteq> Some Exempted \<and> five_years_exceeded nd ps)"
  shows "\<exists>r. calculateProbationIncrementEligibility 1 ptype pmonths True st tpd nd (Some ps) = Inr r
      \<and> (eligible r \<longleftrightarrow> st = Some Passed \<and> tpd \<noteq> None)
      \<and> (eligible r \<longrightarrow> (\<exists>t. tpd = Some t \<and> effectiveDate r = max nd t))
      \<and> (\<not> eligible r \<longrightarrow> effectiveDate r = nd)"
  using assms
  by (cases tpd) (auto simp: calculateProbationIncrementEligibility_def Let_def)

text \<open>
  A passed test with a pass date after the normal date, and a failed test.
\<close>

theorem C5_witness:
  "probationYears OneYear None = 1
   \<and> \<not> five_years_exceeded (mkDate 2020 1 1) (mkDate 2019 1 1)
   \<and> calculateProbationIncrementEligibility 1 OneYear None True (Some Passed)
        (Some (mkDate 2020 3 15)) (mkDate 2020 1 1) (Some (mkDate 2019 1 1))
      = Inr \<lparr>eligible = True, effectiveDate = mkDate 2020 3 15,
             elig_remarks = FirstSanctioned (mkDate 2020 3 15)\<rparr>
   \<and> calculateProbationIncrementEligibility 1 OneYear None True (Some Failed) None
        (mkDate 2020 1 1) (Some (mkDate 2019 1 1))
      = Inr \<lparr>eligible = False, effectiveDate = mkDate 2020 1 1, elig_remarks = FirstWithheld\<rparr>"
  using probation_first_increment [of OneYear None "Some Passed" "mkDate 2020 1 1"
      "mkDate 2019 1 1" "Some (mkDate 2020 3 15)"]
    probation_first_increment [of OneYear None "Some Failed" "mkDate 2020 1 1"
      "mkDate 2019 1 1" None]
  by (simp add: calculateProbationIncrementEligibility_def probationYears_def
        five_years_exceeded_def day_number_def mkDate_def Let_def)

text \<open>
  C6. In every result the commissions of the monthly periods, in output order, never
  decrease.
\<close>

theorem commission_monotone:
  assumes "calculateFullPayroll T data = Some (Inr r)"
  shows "sorted (map commission (series (yearlyCalculations r)))"
proof -
  from assms obtain doj cs ce s0 s where
    init: "initial_state T data doj = Some (Inr s0)" and
    loop: "sim_loop T data (build_events T data)
             (sortedIncrementChanges (annualIncrementChanges data))
             cs (effective_end data ce) doj s0 = Some (Inr s)" and
    fin: "finish data s = Some (Inr r)"
    by (rule calculateFullPayroll_elim)
  from initial_state_facts(1) [OF init] have "cinv doj s0"
    by (simp add: cinv_def years_ok_def series_def)
  with loop have "cinv (stop_date (effective_end data ce) doj) s"
    by (rule sim_loop_inv) (rule cinv_step)
  with finish_facts(1) [OF fin] show ?thesis by (simp add: cinv_def)
qed

text \<open>
  The run that crosses from the 6th into the 7th commission.
\<close>

theorem C6_witness:
  "calculateFullPayroll sample_tables joiner_2015 = Some (Inr result_2015)
   \<and> map commission (series (yearlyCalculations result_2015)) = [6, 7]
   \<and> sorted (map commission (series (yearlyCalculations result_2015)))"
  using commission_monotone [OF run_2015] run_2015
  by (simp add: result_2015_def series_def period_2015_12_def period_2016_01_def)

text \<open>
  C7. The total of the increment analysis is the sum of its five counters in the result of
  every run and in the initial state; every event, every annual increment step and every
  whole month keeps it so.
\<close>

theorem increment_total_is_sum:
  "(calculateFullPayroll T data = Some (Inr r) \<longrightarrow> balanced (res_incrementAnalysis r))
   \<and> (initial_state T data doj = Some (Inr s0) \<longrightarrow> balanced (incrementAnalysis s0))
   \<and> (balanced (incrementAnalysis s) \<and> apply_event T data e s = Some (Inr s1)
        \<longrightarrow> balanced (incrementAnalysis s1))
   \<and> (balanced (incrementAnalysis s) \<and> annual_increment T data ch d s = Some (Inr s2)
        \<longrightarrow> balanced (incrementAnalysis s2))
   \<and> (balanced (incrementAnalysis s) \<and> month_step T data evs ch cs d s = Some (Inr s3)
        \<longrightarrow> balanced (incrementAnalysis s3))"
  by (intro conjI impI)
     (auto intro: run_balanced initial_state_balanced apply_event_balanced
        annual_increment_balanced month_step_balanced)

text \<open>
  A run with one regular increment, and one instance of each step.
\<close>

theorem C7_witness:
  "calculateFullPayroll sample_tables entrant_2019 = Some (Inr result_2019)
   \<and> balanced (res_incrementAnalysis result_2019)
   \<and> regular (res_incrementAnalysis result_2019) = 1
   \<and> total (res_incrementAnalysis result_2019) = 1
   \<and> initial_state sample_tables entrant_2019 (mkDate 2019 1 1) = Some (Inr state_2019)
   \<and> balanced (incrementAnalysis state_2019)
   \<and> balanced (incrementAnalysis state_2015)
   \<and> apply_event sample_tables joiner_2015 commission_7_event state_2015 = Some (Inr state_2016)
   \<and> balanced (incrementAnalysis state_2016)
   \<and> annual_increment sample_tables entrant_2019
        (sortedIncrementChanges (annualIncrementChanges entrant_2019)) (mkDate 2019 7 1)
        state_2019 = Some (Inr state_2019_07)
   \<and> balanced (incrementAnalysis state_2019_07)
   \<and> total (incrementAnalysis state_2019_07) = 1
   \<and> month_step sample_tables entrant_2019 (build_events sample_tables entrant_2019)
        (sortedIncrementChanges (annualIncrementChanges entrant_2019)) (mkDate 2019 1 1)
        (mkDate 2019 1 1) state_2019 = Some (Inr state_2019_02)
   \<and> balanced (incrementAnalysis state_2019_02)"
  using increment_total_is_sum [of sample_tables entrant_2019 result_2019 "mkDate 2019 1 1"
      state_2019 state_2019 commission_7_event state_2019
      "sortedIncrementChanges (annualIncrementChanges entrant_2019)" "mkDate 2019 7 1"
      state_2019_07 "build_events sample_tables entrant_2019" "mkDate 2019 1 1" state_2019_02]
    run_2019 initial_2019 fixation_2016 increment_2019 january_2019
  by (simp add: result_2019_def state_2019_def state_2015_def state_2016_def state_2019_07_def
        state_2019_02_def start_state_def empty_analysis_def balanced_def)

text \<open>
  C8. In every monthly period of every result the gross pay is the sum of basic pay, DA,
  HRA, CCA and medical allowance; the net pay is the gross pay less the total deductions; the
  total deductions are the sum of the amounts of the deductions; and the deductions are
  CPS/GPF, then professional tax if its configured amount is positive, then GIS if its
  configured amount is positive.
\<close>

theorem period_totals:
  assumes "calculateFullPayroll T data = Some (Inr r)"
    and "p \<in> set (series (yearlyCalculations r))"
  shows "grossPay p = basicPay p + daAmount p + hra p + cca p + medicalAllowance p
    \<and> netPay p = grossPay p - totalDeductions p
    \<and> totalDeductions p = sum_list (map amount (deductions p))
    \<and> (\<exists>c. deductions p =
          \<lparr>ded_name = ''CPS/GPF'', amount = c\<rparr>
          # (if 0 < professionalTax data
             then [\<lparr>ded_name = ''Professional Tax'', amount = professionalTax data\<rparr>] else [])
          @ (if 0 < gisContribution data
             then [\<lparr>ded_name = ''GIS'', amount = gisContribution data\<rparr>] else []))"
proof -
  from run_period_sums [OF assms(1)] assms(2) have "period_sums data p"
    by blast
  then show ?thesis
    by (simp add: period_sums_def deductions_of_def)
qed

text \<open>
  July 2019 of the sample employee.
\<close>

theorem C8_witness:
  "calculateFullPayroll sample_tables entrant_2019 = Some (Inr result_2019)
   \<and> series (yearlyCalculations result_2019) = [period_2019_06, period_2019_07]
   \<and> grossPay period_2019_07 = 23552 \<and> basicPay period_2019_07 = 19600
   \<and> daAmount period_2019_07 = 2352 \<and> hra period_2019_07 = 1300 \<and> cca period_2019_07 = 0
   \<and> medicalAllowance period_2019_07 = 300
   \<and> grossPay period_2019_07 =
       basicPay period_2019_07 + daAmount period_2019_07 + hra period_2019_07
         + cca period_2019_07 + medicalAllowance period_2019_07
   \<and> netPay period_2019_07 = grossPay period_2019_07 - totalDeductions period_2019_07
   \<and> totalDeductions period_2019_07 = sum_list (map amount (deductions period_2019_07))
   \<and> professionalTax entrant_2019 = 0 \<and> gisContribution entrant_2019 = 60
   \<and> deductions period_2019_07 =
       [\<lparr>ded_name = ''CPS/GPF'', amount = 2195\<rparr>, \<lparr>ded_name = ''GIS'', amount = 60\<rparr>]"
  using period_totals [of sample_tables entrant_2019 result_2019 period_2019_07] run_2019
  by (simp add: result_2019_def series_def period_2019_07_def entrant_2019_def)



text \<open>
  C10. For an input none of whose schedule entries has an effective date: the initial state
  has no scheduled increment date and no regular or account test increment counted; a month
  keeps this, and changes the basic pay only if one of its events is a commission
  transition, a selection or special grade, or a promotion; in the result the counters of
  regular and account test increments are 0.
\<close>

theorem no_schedule_no_increment:
  assumes "\<forall>c\<in>set (annualIncrementChanges data). effectiveDate_c c = None"
  shows "(initial_state T data doj = Some (Inr s0) \<longrightarrow> no_schedule s0)
    \<and> (no_schedule s \<and> month_step T data evs ch cs d s = Some (Inr s') \<longrightarrow>
         no_schedule s'
         \<and> ((\<forall>e\<in>set (monthEvents evs d). \<not> pay_event e) \<longrightarrow> currentPay s' = currentPay s))
    \<and> (calculateFullPayroll T data = Some (Inr r) \<longrightarrow>
         regular (res_incrementAnalysis r) = 0 \<and> accountTest (res_incrementAnalysis r) = 0)"
proof -
  have i: "no_schedule s0" if "initial_state T data doj = Some (Inr s0)" for doj s0
    using initial_state_facts [OF that] no_dates_sorted [OF assms]
    by (simp add: no_schedule_def firstScheduledIncrementDate_def empty_analysis_def)
  have r: "regular (res_incrementAnalysis r) = 0 \<and> accountTest (res_incrementAnalysis r) = 0"
    if run: "calculateFullPayroll T data = Some (Inr r)"
  proof -
    from run obtain doj cs ce s0 s where
      init: "initial_state T data doj = Some (Inr s0)" and
      loop: "sim_loop T data (build_events T data)
               (sortedIncrementChanges (annualIncrementChanges data))
               cs (effective_end data ce) doj s0 = Some (Inr s)" and
      fin: "finish data s = Some (Inr r)"
      by (rule calculateFullPayroll_elim)
    have "(\<lambda>d s. no_schedule s) (stop_date (effective_end data ce) doj) s"
      using loop
    proof (rule sim_loop_inv)
      show "no_schedule s0" using init by (rule i)
    next
      fix d t t1
      assume "no_schedule t"
        "month_step T data (build_events T data)
           (sortedIncrementChanges (annualIncrementChanges data)) cs d t = Some (Inr t1)"
      then show "no_schedule t1" by (rule month_step_no_schedule(1))
    qed
    with finish_facts(2) [OF fin] show ?thesis by (simp add: no_schedule_def)
  qed
  from i r month_step_no_schedule show ?thesis by blast
qed

text \<open>
  The sample employee with a schedule entry without date.
\<close>

theorem C10_witness:
  "annualIncrementChanges blank_schedule = [\<lparr>effectiveDate_c = None, incrementMonth = jul\<rparr>]
   \<and> initial_state sample_tables blank_schedule (mkDate 2018 8 1) = Some (Inr state_2018)
   \<and> no_schedule state_2018
   \<and> calculateFullPayroll sample_tables blank_schedule = Some (Inr result_2018)
   \<and> regular (res_incrementAnalysis result_2018) = 0
   \<and> accountTest (res_incrementAnalysis result_2018) = 0
   \<and> map basicPay (series (yearlyCalculations result_2018)) = [19000]"
  using no_schedule_no_increment [of blank_schedule sample_tables "mkDate 2018 8 1" state_2018
      _ _ _ _ _ _ result_2018]
    initial_blank run_blank
  by (simp add: blank_schedule_def result_2018_def series_def period_2018_08_def
        state_2018_def start_state_def empty_analysis_def no_schedule_def)

end
